theory Spec2Isabelle
  imports Complex_Main
begin

section \<open>JavaScript values\<close>

text \<open>
  The service handles values of TypeScript type \<open>any\<close>: the bodies of the remote
  network's replies, decoded from JSON by the HTTP client, and a field that is absent
  reads as \<open>undefined\<close>. Numbers are rationals (a JSON number is finite). An object
  is the list of its members in document order.
\<close>

datatype jsval =
    JUndefined
  | JNull
  | JBool bool
  | JNum rat
  | JStr string
  | JArr "jsval list"
  | JObj "(string \<times> jsval) list"

text \<open>What can be thrown: \<open>new Error(msg)\<close>, the engine's \<open>TypeError\<close>, and the
  rejection of the HTTP client. Each carries a message.\<close>

datatype exn = Error string | TypeError string | AxiosError string

fun message :: "exn \<Rightarrow> string" where
  "message (Error m) = m"
| "message (TypeError m) = m"
| "message (AxiosError m) = m"

text \<open>ToBoolean: \<open>undefined\<close>, \<open>null\<close>, \<open>false\<close>, \<open>0\<close> and \<open>""\<close> are falsy;
  every array and every object is truthy.\<close>

fun truthy :: "jsval \<Rightarrow> bool" where
  "truthy JUndefined = False"
| "truthy JNull = False"
| "truthy (JBool b) = b"
| "truthy (JNum n) = (n \<noteq> 0)"
| "truthy (JStr s) = (s \<noteq> [])"
| "truthy (JArr xs) = True"
| "truthy (JObj kvs) = True"

text \<open>\<open>a || b\<close>\<close>

definition js_or :: "jsval \<Rightarrow> jsval \<Rightarrow> jsval" where
  "js_or a b = (if truthy a then a else b)"

text \<open>Reading a property of \<open>undefined\<close> or \<open>null\<close> throws a \<open>TypeError\<close>; of any
  other value it yields the property or \<open>undefined\<close>.\<close>

fun nullish :: "jsval \<Rightarrow> bool" where
  "nullish JUndefined = True"
| "nullish JNull = True"
| "nullish v = False"

text \<open>\<open>v.name\<close> for a \<open>v\<close> that is not nullish. Arrays and strings have \<open>length\<close>; a
  member written twice in a JSON object keeps its last value. None of the names the
  service reads is inherited from a prototype.\<close>

fun js_get :: "jsval \<Rightarrow> string \<Rightarrow> jsval" where
  "js_get (JArr xs) name =
     (if name = ''length'' then JNum (of_nat (length xs)) else JUndefined)"
| "js_get (JStr s) name =
     (if name = ''length'' then JNum (of_nat (length s)) else JUndefined)"
| "js_get (JObj kvs) name =
     (case map_of (rev kvs) name of Some v \<Rightarrow> v | None \<Rightarrow> JUndefined)"
| "js_get v name = JUndefined"

text \<open>\<open>v[i]\<close> for a \<open>v\<close> that is not nullish: the element of an array, the character
  of a string, the member of an object whose key is the decimal numeral of \<open>i\<close>, and
  \<open>undefined\<close> when there is none or \<open>v\<close> is a number or a boolean.\<close>

fun decimal :: "nat \<Rightarrow> string" where
  "decimal n =
     (if n < 10 then [''0123456789'' ! n]
      else decimal (n div 10) @ [''0123456789'' ! (n mod 10)])"

declare decimal.simps [simp del]

fun js_index :: "jsval \<Rightarrow> nat \<Rightarrow> jsval" where
  "js_index (JArr xs) i = (if i < length xs then xs ! i else JUndefined)"
| "js_index (JStr s) i = (if i < length s then JStr [s ! i] else JUndefined)"
| "js_index (JObj kvs) i =
     (case map_of (rev kvs) (decimal i) of Some v \<Rightarrow> v | None \<Rightarrow> JUndefined)"
| "js_index v i = JUndefined"

text \<open>The \<open>TypeError\<close> of the engine (V8) for a property read on \<open>undefined\<close> or
  \<open>null\<close>.\<close>

definition cannotRead :: "jsval \<Rightarrow> string \<Rightarrow> exn" where
  "cannotRead v name =
     TypeError (''Cannot read properties of ''
                @ (if v = JNull then ''null'' else ''undefined'')
                @ '' (reading '' @ [CHR 0x27] @ name @ [CHR 0x27] @ '')'')"

section \<open>The world outside the service\<close>

text \<open>
  An HTTP request either resolves with the decoded body or rejects (no connection, the
  30 s timeout, a status outside 2xx). A reply comes with the time in milliseconds the
  \<open>await\<close> took.
\<close>

datatype http = HttpOk jsval | HttpErr string

type_synonym reply = "http \<times> nat"

text \<open>
  The remote network and the runtime, as the service sees them. The \<open>k\<close>-th status
  lookup of a computation has its own reply, so a sequence of statuses is a function of
  \<open>k\<close>. The runtime's number formatting, its string-to-number conversion, the date
  formatting and the \<open>crypto\<close> library are not code of the service and are parameters;
  \<open>encrypt\<close> yields \<open>None\<close> when any of the library calls throws, and the time it took.
\<close>

record encrypted =
  ciphertext :: string
  nonce :: string
  publicKey :: string

record world =
  mxeAvailable :: reply
  computations :: "jsval \<Rightarrow> reply"
  computation :: "jsval \<Rightarrow> nat \<Rightarrow> reply"
  networkStatus :: reply
  computationList :: "jsval \<Rightarrow> reply"
  functionNames :: reply
  encrypt :: "jsval list \<Rightarrow> jsval \<Rightarrow> encrypted option \<times> nat"
  numberToString :: "rat \<Rightarrow> string"
  stringPositive :: "string \<Rightarrow> bool"
  toISOString :: "int \<Rightarrow> string"

section \<open>String conversion and comparison\<close>

text \<open>\<open>`${v}`\<close>: the string a template literal makes of a value. An array joins its
  elements with commas, \<open>undefined\<close> and \<open>null\<close> elements as empty strings. An object
  decoded from JSON is \<open>[object Object]\<close>, unless it has a member of its own named
  \<open>toString\<close>: that member is no function and hides the inherited method, and the
  conversion throws a \<open>TypeError\<close>; so does the conversion of an array that holds such
  an object.\<close>

fun joinComma :: "string list \<Rightarrow> string" where
  "joinComma [] = []"
| "joinComma [s] = s"
| "joinComma (s # t # ss) = s @ '','' @ joinComma (t # ss)"

definition cannotConvert :: exn where
  "cannotConvert = TypeError ''Cannot convert object to primitive value''"

fun toStr :: "world \<Rightarrow> jsval \<Rightarrow> exn + string"
  and toStrs :: "world \<Rightarrow> jsval list \<Rightarrow> exn + string list" where
  "toStr w JUndefined = Inr ''undefined''"
| "toStr w JNull = Inr ''null''"
| "toStr w (JBool b) = Inr (if b then ''true'' else ''false'')"
| "toStr w (JNum n) = Inr (numberToString w n)"
| "toStr w (JStr s) = Inr s"
| "toStr w (JArr xs) =
     (case toStrs w xs of Inl e \<Rightarrow> Inl e | Inr ss \<Rightarrow> Inr (joinComma ss))"
| "toStr w (JObj kvs) =
     (if ''toString'' \<in> set (map fst kvs) then Inl cannotConvert
      else Inr ''[object Object]'')"
| "toStrs w [] = Inr []"
| "toStrs w (x # xs) =
     (case (if nullish x then Inr [] else toStr w x) of
        Inl e \<Rightarrow> Inl e
      | Inr s \<Rightarrow> (case toStrs w xs of Inl e \<Rightarrow> Inl e | Inr ss \<Rightarrow> Inr (s # ss)))"

text \<open>\<open>v > 0\<close>: the value is converted to a number; \<open>NaN\<close> compares false. An array or
  an object is converted through its string, and throws when that conversion does.\<close>

fun gtZero :: "world \<Rightarrow> jsval \<Rightarrow> exn + bool" where
  "gtZero w JUndefined = Inr False"
| "gtZero w JNull = Inr False"
| "gtZero w (JBool b) = Inr b"
| "gtZero w (JNum n) = Inr (0 < n)"
| "gtZero w (JStr s) = Inr (stringPositive w s)"
| "gtZero w (JArr xs) =
     (case toStr w (JArr xs) of Inl e \<Rightarrow> Inl e | Inr s \<Rightarrow> Inr (stringPositive w s))"
| "gtZero w (JObj kvs) =
     (case toStr w (JObj kvs) of Inl e \<Rightarrow> Inl e | Inr s \<Rightarrow> Inr (stringPositive w s))"

section \<open>Status lookup\<close>

record computation_status =
  st_id :: jsval
  st_status :: jsval
  st_progress :: jsval
  st_result :: jsval
  st_error :: jsval
  st_createdAt :: jsval
  st_completedAt :: jsval

text \<open>The \<open>try\<close> block of \<open>getComputationStatus\<close>: the identifier is written into
  the address, which throws when it has no string and then no request is made; the
  request; then the reads of \<open>response.data\<close>, which throw when the body is
  \<open>undefined\<close> or \<open>null\<close>.\<close>

definition getComputationStatus_try ::
  "world \<Rightarrow> jsval \<Rightarrow> nat \<Rightarrow> (exn + computation_status) \<times> nat" where
  "getComputationStatus_try w computationId k =
     (case toStr w computationId of
        Inl e \<Rightarrow> (Inl e, 0)
      | Inr address \<Rightarrow>
          (case computation w computationId k of
             (HttpErr m, d) \<Rightarrow> (Inl (AxiosError m), d)
           | (HttpOk dat, d) \<Rightarrow>
               if nullish dat
               then (Inl (cannotRead dat ''status''), d)
               else (Inr \<lparr> st_id = computationId,
                           st_status = js_get dat ''status'',
                           st_progress = js_or (js_get dat ''progress'') (JNum 0),
                           st_result = js_get dat ''result'',
                           st_error = js_get dat ''error'',
                           st_createdAt = js_get dat ''createdAt'',
                           st_completedAt = js_get dat ''completedAt'' \<rparr>, d)))"

text \<open>\<open>getComputationStatus\<close>: whatever the block throws is replaced by one error.\<close>

definition getComputationStatus ::
  "world \<Rightarrow> jsval \<Rightarrow> nat \<Rightarrow> (exn + computation_status) \<times> nat" where
  "getComputationStatus w computationId k =
     (case getComputationStatus_try w computationId k of
        (Inl e, d) \<Rightarrow> (Inl (Error ''Failed to retrieve computation status''), d)
      | (Inr st, d) \<Rightarrow> (Inr st, d))"

section \<open>The composite operation\<close>

record arcium_computation_request =
  functionName :: string
  inputs :: "jsval list"
  metadata :: jsval

text \<open>\<open>ArciumComputationResult\<close>. A field left out of the object literal is \<open>None\<close>, or
  \<open>undefined\<close> where its type is \<open>any\<close>.\<close>

record arcium_computation_result =
  success :: bool
  result :: jsval
  computationId :: jsval
  error :: "string option"
  executionTime :: "int option"
  gasUsed :: "rat option"

record mxe =
  mxe_id :: jsval
  mxe_publicKey :: jsval
  mxe_capacity :: jsval

text \<open>\<open>getAvailableMXE\<close>: the first entry of the list, \<open>null\<close> (here \<open>None\<close>) when the
  list is empty or missing, and also when anything throws: the request, the comparison
  of the length, or the reads of a first entry that is \<open>undefined\<close> or \<open>null\<close>.\<close>

definition getAvailableMXE :: "world \<Rightarrow> mxe option \<times> nat" where
  "getAvailableMXE w =
     (case mxeAvailable w of
        (HttpErr m, d) \<Rightarrow> (None, d)
      | (HttpOk dat, d) \<Rightarrow>
          if truthy dat
          then (case gtZero w (js_get dat ''length'') of
                  Inl e \<Rightarrow> (None, d)
                | Inr positive \<Rightarrow>
                    if positive
                    then (let m = js_index dat 0
                          in if nullish m then (None, d)
                             else (Some \<lparr> mxe_id = js_get m ''id'',
                                           mxe_publicKey = js_get m ''publicKey'',
                                           mxe_capacity = js_get m ''capacity'' \<rparr>, d))
                    else (None, d))
          else (None, d))"

text \<open>\<open>encryptInputs\<close>: the calls of the \<open>crypto\<close> library; whatever they throw is
  replaced by one error.\<close>

definition encryptInputs :: "world \<Rightarrow> jsval list \<Rightarrow> jsval \<Rightarrow> (exn + encrypted) \<times> nat" where
  "encryptInputs w ins mxePublicKey =
     (case encrypt w ins mxePublicKey of
        (None, d) \<Rightarrow> (Inl (Error ''Input encryption failed''), d)
      | (Some e, d) \<Rightarrow> (Inr e, d))"

record submission =
  sub_mxeId :: jsval
  sub_functionName :: string
  sub_encryptedInputs :: encrypted
  sub_metadata :: jsval

text \<open>\<open>submitComputation\<close>: the body posted carries the time of the call; the identifier
  is whatever truthy value the reply holds under \<open>computationId\<close>. A rejected request
  and a reply without identifier both end in the same error.\<close>

definition submitComputation :: "world \<Rightarrow> submission \<Rightarrow> int \<Rightarrow> (exn + jsval) \<times> nat" where
  "submitComputation w sub now =
     (case computations w
             (JObj [(''mxeId'', sub_mxeId sub),
                    (''functionName'', JStr (sub_functionName sub)),
                    (''encryptedInputs'',
                       JObj [(''ciphertext'', JStr (ciphertext (sub_encryptedInputs sub))),
                             (''nonce'', JStr (nonce (sub_encryptedInputs sub))),
                             (''publicKey'', JStr (publicKey (sub_encryptedInputs sub)))]),
                    (''metadata'', sub_metadata sub),
                    (''timestamp'', JStr (toISOString w now))]) of
        (HttpErr m, d) \<Rightarrow> (Inl (Error ''Computation submission failed''), d)
      | (HttpOk dat, d) \<Rightarrow>
          if truthy dat \<and> truthy (js_get dat ''computationId'')
          then (Inr (js_get dat ''computationId''), d)
          else (Inl (Error ''Computation submission failed''), d))"

subsection \<open>The poll loop\<close>

definition maxWaitTime :: int where
  "maxWaitTime = 300000"

definition pollInterval :: int where
  "pollInterval = 5000"

record completion =
  data :: jsval
  wait_gasUsed :: "rat option"

text \<open>
  The \<open>while\<close> loop of \<open>waitForComputationCompletion\<close>. \<open>now\<close> is the reading of the
  clock at the loop test and \<open>k\<close> counts the lookups made so far. Time passes while a
  request is awaited (by the reply's duration) and while the timer runs (by the poll
  interval); the clock does not go back. The \<open>catch\<close> inside the loop logs and throws
  the same error again, also the one thrown while the message of a failed computation
  is put together.
\<close>

function waitLoop ::
  "world \<Rightarrow> jsval \<Rightarrow> int \<Rightarrow> nat \<Rightarrow> int \<Rightarrow> (exn + completion) \<times> int" where
  "waitLoop w cid startTime k now =
     (if now - startTime < maxWaitTime
      then (case getComputationStatus w cid k of
              (Inl e, d) \<Rightarrow> (Inl e, now + int d)
            | (Inr status, d) \<Rightarrow>
                if st_status status = JStr ''completed''
                then (Inr \<lparr> data = st_result status, wait_gasUsed = Some 0 \<rparr>, now + int d)
                else if st_status status = JStr ''failed''
                then (case toStr w (st_error status) of
                        Inl e \<Rightarrow> (Inl e, now + int d)
                      | Inr m \<Rightarrow> (Inl (Error (''Computation failed: '' @ m)), now + int d))
                else waitLoop w cid startTime (Suc k) (now + int d + pollInterval))
      else (Inl (Error ''Computation timeout''), now))"
  by pat_completeness auto
termination
  by (relation "measure (\<lambda>(w, cid, startTime, k, now). nat (maxWaitTime - (now - startTime)))")
     (auto simp: pollInterval_def)

declare waitLoop.simps [simp del]

definition waitForComputationCompletion ::
  "world \<Rightarrow> jsval \<Rightarrow> int \<Rightarrow> (exn + completion) \<times> int" where
  "waitForComputationCompletion w cid now = waitLoop w cid now 0 now"

subsection \<open>The four steps\<close>

text \<open>\<open>n || 0\<close> on an optional number.\<close>

definition num_or :: "rat option \<Rightarrow> rat \<Rightarrow> rat" where
  "num_or a b = (case a of None \<Rightarrow> b | Some n \<Rightarrow> if n \<noteq> 0 then n else b)"

text \<open>The \<open>try\<close> block of \<open>performEncryptedComputation\<close>, started at \<open>startTime\<close>: its
  outcome and the clock when it ends.\<close>

definition performEncryptedComputation_try ::
  "world \<Rightarrow> arcium_computation_request \<Rightarrow> int
     \<Rightarrow> (exn + arcium_computation_result) \<times> int" where
  "performEncryptedComputation_try w request startTime =
     (case getAvailableMXE w of
        (None, d1) \<Rightarrow> (Inl (Error ''No available MXE found''), startTime + int d1)
      | (Some m, d1) \<Rightarrow>
          (case encryptInputs w (inputs request) (mxe_publicKey m) of
             (Inl e, d2) \<Rightarrow> (Inl e, startTime + int d1 + int d2)
           | (Inr encryptedInputs, d2) \<Rightarrow>
               (case submitComputation w
                       \<lparr> sub_mxeId = mxe_id m,
                         sub_functionName = functionName request,
                         sub_encryptedInputs = encryptedInputs,
                         sub_metadata = metadata request \<rparr>
                       (startTime + int d1 + int d2) of
                  (Inl e, d3) \<Rightarrow> (Inl e, startTime + int d1 + int d2 + int d3)
                | (Inr cid, d3) \<Rightarrow>
                    (case waitForComputationCompletion w cid
                            (startTime + int d1 + int d2 + int d3) of
                       (Inl e, t) \<Rightarrow> (Inl e, t)
                     | (Inr r, t) \<Rightarrow>
                         (Inr \<lparr> success = True,
                                result = data r,
                                computationId = cid,
                                error = None,
                                executionTime = Some (t - startTime),
                                gasUsed = Some (num_or (wait_gasUsed r) 0) \<rparr>, t)))))"

text \<open>\<open>performEncryptedComputation\<close>: the \<open>catch\<close> turns whatever the block throws
  into a result.\<close>

definition performEncryptedComputation ::
  "world \<Rightarrow> arcium_computation_request \<Rightarrow> int \<Rightarrow> arcium_computation_result \<times> int" where
  "performEncryptedComputation w request startTime =
     (case performEncryptedComputation_try w request startTime of
        (Inl e, t) \<Rightarrow>
          (\<lparr> success = False,
             result = JUndefined,
             computationId = JUndefined,
             error = Some (message e),
             executionTime = Some (t - startTime),
             gasUsed = None \<rparr>, t)
      | (Inr r, t) \<Rightarrow> (r, t))"

section \<open>Accessors\<close>

record arcium_network_status =
  connected :: jsval
  activeNodes :: jsval
  averageLatency :: jsval
  networkHealth :: jsval
  mxeCount :: jsval
  totalComputations :: jsval

text \<open>The \<open>try\<close> block of \<open>getNetworkStatus\<close>.\<close>

definition getNetworkStatus_try :: "world \<Rightarrow> exn + arcium_network_status" where
  "getNetworkStatus_try w =
     (case networkStatus w of
        (HttpErr m, d) \<Rightarrow> Inl (AxiosError m)
      | (HttpOk dat, d) \<Rightarrow>
          if nullish dat then Inl (cannotRead dat ''connected'')
          else Inr \<lparr> connected = js_or (js_get dat ''connected'') (JBool False),
                     activeNodes = js_or (js_get dat ''activeNodes'') (JNum 0),
                     averageLatency = js_or (js_get dat ''averageLatency'') (JNum 0),
                     networkHealth = js_or (js_get dat ''health'') (JStr ''unknown''),
                     mxeCount = js_or (js_get dat ''mxeCount'') (JNum 0),
                     totalComputations = js_or (js_get dat ''totalComputations'') (JNum 0) \<rparr>)"

definition getNetworkStatus :: "world \<Rightarrow> arcium_network_status" where
  "getNetworkStatus w =
     (case getNetworkStatus_try w of
        Inl e \<Rightarrow> \<lparr> connected = JBool False,
                   activeNodes = JNum 0,
                   averageLatency = JNum 0,
                   networkHealth = JStr ''error'',
                   mxeCount = JNum 0,
                   totalComputations = JNum 0 \<rparr>
      | Inr s \<Rightarrow> s)"

text \<open>\<open>getComputationHistory\<close>, with its default parameter \<open>limit = 50\<close>, and
  \<open>getAvailableFunctions\<close>: the \<open>try\<close> block of each, then the function.\<close>

definition getComputationHistory_try :: "world \<Rightarrow> jsval \<Rightarrow> exn + jsval" where
  "getComputationHistory_try w limit =
     (case toStr w (if limit = JUndefined then JNum 50 else limit) of
        Inl e \<Rightarrow> Inl e
      | Inr address \<Rightarrow>
          (case computationList w (if limit = JUndefined then JNum 50 else limit) of
             (HttpErr m, d) \<Rightarrow> Inl (AxiosError m)
           | (HttpOk dat, d) \<Rightarrow> Inr (js_or dat (JArr []))))"

definition getComputationHistory :: "world \<Rightarrow> jsval \<Rightarrow> jsval" where
  "getComputationHistory w limit =
     (case getComputationHistory_try w limit of
        Inl e \<Rightarrow> JArr []
      | Inr v \<Rightarrow> v)"

definition getAvailableFunctions_try :: "world \<Rightarrow> exn + jsval" where
  "getAvailableFunctions_try w =
     (case functionNames w of
        (HttpErr m, d) \<Rightarrow> Inl (AxiosError m)
      | (HttpOk dat, d) \<Rightarrow> Inr (js_or dat (JArr [])))"

definition getAvailableFunctions :: "world \<Rightarrow> jsval" where
  "getAvailableFunctions w =
     (case getAvailableFunctions_try w of
        Inl e \<Rightarrow> JArr [JStr ''riskAssessment'', JStr ''collateralValidation'',
                        JStr ''interestCalculation'']
      | Inr v \<Rightarrow> v)"

section \<open>Domain wrappers\<close>

text \<open>\<open>`${result.error}`\<close> on the optional string.\<close>

definition optStr :: "string option \<Rightarrow> string" where
  "optStr e = (case e of None \<Rightarrow> ''undefined'' | Some s \<Rightarrow> s)"

record risk_assessment =
  riskScore :: jsval
  approved :: jsval
  maxAmount :: jsval
  confidence :: jsval

record collateral_validation =
  valid :: jsval
  ratio :: jsval
  requiredRatio :: jsval

record interest_calculation =
  interest :: jsval
  totalAmount :: jsval
  monthlyPayment :: jsval

definition riskAssessmentRequest :: "world \<Rightarrow> jsval \<Rightarrow> int \<Rightarrow> arcium_computation_request" where
  "riskAssessmentRequest w encryptedParams now =
     \<lparr> functionName = ''riskAssessment'',
       inputs = [encryptedParams],
       metadata = JObj [(''type'', JStr ''risk_assessment''),
                        (''timestamp'', JStr (toISOString w now))] \<rparr>"

text \<open>Each wrapper throws its own error when the computation did not succeed; then the
  reads \<open>result.result[i]\<close> throw a \<open>TypeError\<close> when the payload is \<open>undefined\<close> or
  \<open>null\<close>.\<close>

definition performEncryptedRiskAssessment ::
  "world \<Rightarrow> jsval \<Rightarrow> int \<Rightarrow> (exn + risk_assessment) \<times> int" where
  "performEncryptedRiskAssessment w encryptedParams now =
     (case performEncryptedComputation w (riskAssessmentRequest w encryptedParams now) now of
        (r, t) \<Rightarrow>
          if \<not> success r
          then (Inl (Error (''Risk assessment failed: '' @ optStr (error r))), t)
          else if nullish (result r) then (Inl (cannotRead (result r) ''0''), t)
          else (Inr \<lparr> riskScore = js_or (js_index (result r) 0) (JNum 50),
                      approved = js_or (js_index (result r) 1) (JBool False),
                      maxAmount = js_or (js_index (result r) 2) (JNum 0),
                      confidence = js_or (js_index (result r) 3) (JNum 0.5) \<rparr>, t))"

definition collateralValidationRequest ::
  "world \<Rightarrow> rat \<Rightarrow> rat \<Rightarrow> int \<Rightarrow> arcium_computation_request" where
  "collateralValidationRequest w collateralValue loanAmount now =
     \<lparr> functionName = ''collateralValidation'',
       inputs = [JNum collateralValue, JNum loanAmount],
       metadata = JObj [(''type'', JStr ''collateral_validation''),
                        (''timestamp'', JStr (toISOString w now))] \<rparr>"

definition performEncryptedCollateralValidation ::
  "world \<Rightarrow> rat \<Rightarrow> rat \<Rightarrow> int \<Rightarrow> (exn + collateral_validation) \<times> int" where
  "performEncryptedCollateralValidation w collateralValue loanAmount now =
     (case performEncryptedComputation w
             (collateralValidationRequest w collateralValue loanAmount now) now of
        (r, t) \<Rightarrow>
          if \<not> success r
          then (Inl (Error (''Collateral validation failed: '' @ optStr (error r))), t)
          else if nullish (result r) then (Inl (cannotRead (result r) ''0''), t)
          else (Inr \<lparr> valid = js_or (js_index (result r) 0) (JBool False),
                      ratio = js_or (js_index (result r) 1) (JNum 0),
                      requiredRatio = js_or (js_index (result r) 2) (JNum 1.5) \<rparr>, t))"

definition interestCalculationRequest ::
  "world \<Rightarrow> rat \<Rightarrow> rat \<Rightarrow> rat \<Rightarrow> int \<Rightarrow> arcium_computation_request" where
  "interestCalculationRequest w principalAmount rate time now =
     \<lparr> functionName = ''interestCalculation'',
       inputs = [JNum principalAmount, JNum rate, JNum time],
       metadata = JObj [(''type'', JStr ''interest_calculation''),
                        (''timestamp'', JStr (toISOString w now))] \<rparr>"

definition performEncryptedInterestCalculation ::
  "world \<Rightarrow> rat \<Rightarrow> rat \<Rightarrow> rat \<Rightarrow> int \<Rightarrow> (exn + interest_calculation) \<times> int" where
  "performEncryptedInterestCalculation w principalAmount rate time now =
     (case performEncryptedComputation w
             (interestCalculationRequest w principalAmount rate time now) now of
        (r, t) \<Rightarrow>
          if \<not> success r
          then (Inl (Error (''Interest calculation failed: '' @ optStr (error r))), t)
          else if nullish (result r) then (Inl (cannotRead (result r) ''0''), t)
          else (Inr \<lparr> interest = js_or (js_index (result r) 0) (JNum 0),
                      totalAmount = js_or (js_index (result r) 1) (JNum 0),
                      monthlyPayment = js_or (js_index (result r) 2) (JNum 0) \<rparr>, t))"

section \<open>Status sequences\<close>

text \<open>The \<open>k\<close>-th lookup yields a status that is not terminal: the loop sleeps and
  polls again.\<close>

definition pending :: "world \<Rightarrow> jsval \<Rightarrow> nat \<Rightarrow> bool" where
  "pending w cid k =
     (case fst (getComputationStatus w cid k) of
        Inl e \<Rightarrow> False
      | Inr st \<Rightarrow> st_status st \<noteq> JStr ''completed'' \<and> st_status st \<noteq> JStr ''failed'')"

text \<open>The clock at the loop test before the \<open>n\<close>-th lookup, for a loop entered at
  \<open>t\<close> whose earlier lookups were all pending.\<close>

fun pollStart :: "world \<Rightarrow> jsval \<Rightarrow> int \<Rightarrow> nat \<Rightarrow> int" where
  "pollStart w cid t 0 = t"
| "pollStart w cid t (Suc n) =
     pollStart w cid t n + int (snd (computation w cid n)) + pollInterval"

section \<open>Sample worlds\<close>

text \<open>A network with one node, where a computation is pending, then processing, then
  completed with a one-element result; the three list accessors fail in transport.\<close>

definition sample_world :: world where
  "sample_world =
     \<lparr> mxeAvailable =
         (HttpOk (JArr [JObj [(''id'', JStr ''mxe-1''), (''publicKey'', JStr ''pk-1''),
                              (''capacity'', JNum 8)]]), 40),
       computations = (\<lambda>body. (HttpOk (JObj [(''computationId'', JStr ''c-1'')]), 60)),
       computation =
         (\<lambda>cid k.
            if k = 0 then (HttpOk (JObj [(''status'', JStr ''pending'')]), 50)
            else if k = 1
            then (HttpOk (JObj [(''status'', JStr ''processing''), (''progress'', JNum 40)]), 50)
            else (HttpOk (JObj [(''status'', JStr ''completed''),
                                (''result'', JArr [JNum 70])]), 50)),
       networkStatus = (HttpErr ''timeout of 30000ms exceeded'', 30000),
       computationList = (\<lambda>limit. (HttpErr ''Network Error'', 10)),
       functionNames = (HttpErr ''Network Error'', 10),
       encrypt = (\<lambda>ins key. (Some \<lparr> ciphertext = ''5f'', nonce = ''00'',
                                       publicKey = ''pem'' \<rparr>, 120)),
       numberToString = (\<lambda>n. ''0''),
       stringPositive = (\<lambda>s. False),
       toISOString = (\<lambda>t. ''2024-01-01T00:00:00.000Z'') \<rparr>"

definition sample_request :: arcium_computation_request where
  "sample_request =
     \<lparr> functionName = ''riskAssessment'', inputs = [JNum 1], metadata = JUndefined \<rparr>"

text \<open>The node list is empty.\<close>

definition no_node_world :: world where
  "no_node_world = sample_world \<lparr> mxeAvailable := (HttpOk (JArr []), 40) \<rparr>"

text \<open>The \<open>crypto\<close> library throws.\<close>

definition no_crypto_world :: world where
  "no_crypto_world = sample_world \<lparr> encrypt := (\<lambda>ins key. (None, 5)) \<rparr>"

text \<open>The submission is rejected.\<close>

definition no_submit_world :: world where
  "no_submit_world =
     sample_world \<lparr> computations := (\<lambda>body. (HttpErr ''Network Error'', 60)) \<rparr>"

text \<open>The second lookup reports the computation failed.\<close>

definition failed_world :: world where
  "failed_world =
     sample_world \<lparr> computation :=
       (\<lambda>cid k.
          if k = 0 then (HttpOk (JObj [(''status'', JStr ''pending'')]), 50)
          else (HttpOk (JObj [(''status'', JStr ''failed''),
                              (''error'', JStr ''bad input'')]), 50)) \<rparr>"

text \<open>The second lookup fails in transport; a third one would find the computation
  completed.\<close>

definition poll_error_world :: world where
  "poll_error_world =
     sample_world \<lparr> computation :=
       (\<lambda>cid k.
          if k = 0 then (HttpOk (JObj [(''status'', JStr ''pending'')]), 50)
          else if k = 1 then (HttpErr ''Network Error'', 50)
          else (HttpOk (JObj [(''status'', JStr ''completed''),
                              (''result'', JArr [JNum 70])]), 50)) \<rparr>"

text \<open>Every lookup is pending and answered at once.\<close>

definition pending_world :: world where
  "pending_world =
     sample_world \<lparr> computation :=
       (\<lambda>cid k. (HttpOk (JObj [(''status'', JStr ''pending'')]), 0)) \<rparr>"

text \<open>Sixty lookups are pending, each answered at once; from the sixty-first on the
  computation is completed.\<close>

definition late_world :: world where
  "late_world =
     sample_world \<lparr> computation :=
       (\<lambda>cid k.
          if k < 60 then (HttpOk (JObj [(''status'', JStr ''pending'')]), 0)
          else (HttpOk (JObj [(''status'', JStr ''completed''),
                              (''result'', JArr [JNum 70])]), 0)) \<rparr>"

text \<open>The first lookup finds the computation completed, with no \<open>result\<close> member, and
  with an object for its result.\<close>

definition no_payload_world :: world where
  "no_payload_world =
     sample_world \<lparr> computation :=
       (\<lambda>cid k. (HttpOk (JObj [(''status'', JStr ''completed'')]), 50)) \<rparr>"

definition object_payload_world :: world where
  "object_payload_world =
     sample_world \<lparr> computation :=
       (\<lambda>cid k. (HttpOk (JObj [(''status'', JStr ''completed''),
                                 (''result'', JObj [(''score'', JNum 70)])]), 50)) \<rparr>"

text \<open>Every lookup is pending and takes six seconds.\<close>

definition slow_world :: world where
  "slow_world =
     sample_world \<lparr> computation :=
       (\<lambda>cid k. (HttpOk (JObj [(''status'', JStr ''pending'')]), 6000)) \<rparr>"

section \<open>Values\<close>

lemma decimal_digit [simp]: "n < 10 \<Longrightarrow> decimal n = [''0123456789'' ! n]"
  by (simp add: decimal.simps)

lemma toStr_own_toString:
  "toStr w (JObj ((''toString'', v) # kvs)) = Inl cannotConvert"
  by simp

lemma js_index_absent:
  assumes "decimal i \<notin> set (map fst kvs)"
  shows "js_index (JObj kvs) i = JUndefined"
proof -
  have "map_of (rev kvs) (decimal i) = None"
    using assms by (simp add: map_of_eq_None_iff)
  then show ?thesis
    by simp
qed

section \<open>The poll loop, step by step\<close>

lemma status_latency:
  "pending w cid k \<Longrightarrow> snd (getComputationStatus w cid k) = snd (computation w cid k)"
  by (cases "computation w cid k")
     (auto simp: pending_def getComputationStatus_def getComputationStatus_try_def
           split: http.splits sum.splits)

lemma waitLoop_timeout:
  "\<not> now - startTime < maxWaitTime \<Longrightarrow>
   waitLoop w cid startTime k now = (Inl (Error ''Computation timeout''), now)"
  by (simp add: waitLoop.simps)

lemma waitLoop_error:
  "now - startTime < maxWaitTime \<Longrightarrow> getComputationStatus w cid k = (Inl e, d) \<Longrightarrow>
   waitLoop w cid startTime k now = (Inl e, now + int d)"
  by (simp add: waitLoop.simps)

lemma waitLoop_completed:
  "now - startTime < maxWaitTime \<Longrightarrow> getComputationStatus w cid k = (Inr st, d) \<Longrightarrow>
   st_status st = JStr ''completed'' \<Longrightarrow>
   waitLoop w cid startTime k now
     = (Inr \<lparr> data = st_result st, wait_gasUsed = Some 0 \<rparr>, now + int d)"
  by (simp add: waitLoop.simps)

lemma waitLoop_failed:
  "now - startTime < maxWaitTime \<Longrightarrow> getComputationStatus w cid k = (Inr st, d) \<Longrightarrow>
   st_status st = JStr ''failed'' \<Longrightarrow> toStr w (st_error st) = Inr m \<Longrightarrow>
   waitLoop w cid startTime k now
     = (Inl (Error (''Computation failed: '' @ m)), now + int d)"
  by (simp add: waitLoop.simps)

lemma waitLoop_pending:
  assumes "now - startTime < maxWaitTime" and "pending w cid k"
  shows "waitLoop w cid startTime k now
     = waitLoop w cid startTime (Suc k) (now + int (snd (computation w cid k)) + pollInterval)"
proof -
  obtain r d where rd: "getComputationStatus w cid k = (r, d)"
    by (cases "getComputationStatus w cid k")
  with assms(2) obtain st where st: "r = Inr st"
    "st_status st \<noteq> JStr ''completed''" "st_status st \<noteq> JStr ''failed''"
    by (cases r) (auto simp: pending_def)
  have "d = snd (computation w cid k)"
    using rd assms(2) status_latency [of w cid k] by simp
  with assms(1) rd st show ?thesis
    by (subst waitLoop.simps) simp
qed

lemma pollStart_lower: "t + pollInterval * int n \<le> pollStart w cid t n"
  by (induction n) (auto simp: algebra_simps pollInterval_def)

lemma pollStart_mono: "i \<le> n \<Longrightarrow> pollStart w cid t i \<le> pollStart w cid t n"
proof (induction n)
  case 0
  then show ?case by simp
next
  case (Suc n)
  then show ?case
    by (cases "i = Suc n") (auto simp: pollInterval_def)
qed

lemma waitLoop_unroll:
  assumes "\<And>i. i < n \<Longrightarrow> pending w cid i"
    and "\<And>i. i < n \<Longrightarrow> pollStart w cid t i - t < maxWaitTime"
  shows "waitLoop w cid t 0 t = waitLoop w cid t n (pollStart w cid t n)"
  using assms
proof (induction n)
  case 0
  then show ?case by simp
next
  case (Suc n)
  have "waitLoop w cid t 0 t = waitLoop w cid t n (pollStart w cid t n)"
    using Suc by simp
  also have "\<dots> = waitLoop w cid t (Suc n) (pollStart w cid t (Suc n))"
    using waitLoop_pending [of "pollStart w cid t n" t w cid n] Suc.prems by simp
  finally show ?case .
qed

lemma waitLoop_gas:
  "waitLoop w cid startTime k now = (Inr r, t) \<Longrightarrow> wait_gasUsed r = Some 0"
proof (induction w cid startTime k now rule: waitLoop.induct)
  case (1 w cid startTime k now)
  show ?case
  proof (cases "now - startTime < maxWaitTime")
    case False
    with "1.prems" show ?thesis by (simp add: waitLoop.simps)
  next
    case True
    obtain o1 d where od: "getComputationStatus w cid k = (o1, d)"
      by (cases "getComputationStatus w cid k")
    show ?thesis
    proof (cases o1)
      case (Inl e)
      with True od "1.prems" show ?thesis by (simp add: waitLoop.simps)
    next
      case (Inr st)
      with True od "1.prems" "1.IH" show ?thesis
        by (subst (asm) waitLoop.simps) (auto split: if_splits sum.splits)
    qed
  qed
qed

lemma getAvailableMXE_empty:
  "fst (mxeAvailable w) = HttpOk (JArr []) \<Longrightarrow>
   getAvailableMXE w = (None, snd (mxeAvailable w))"
  by (cases "mxeAvailable w") (simp add: getAvailableMXE_def)

lemma wait_reaches:
  assumes "\<forall>i<n. pending w cid i" and "pollStart w cid t n - t < maxWaitTime"
  shows "waitForComputationCompletion w cid t = waitLoop w cid t n (pollStart w cid t n)"
proof -
  have "pollStart w cid t i - t < maxWaitTime" if "i < n" for i
    using pollStart_mono [of i n w cid t] that assms(2) by simp
  with assms(1) show ?thesis
    unfolding waitForComputationCompletion_def by (intro waitLoop_unroll) auto
qed

lemma wait_past_ceiling:
  assumes "\<forall>i<n. pending w cid i" and "maxWaitTime \<le> pollStart w cid t n - t"
  shows "\<exists>m>0. m \<le> n
              \<and> waitForComputationCompletion w cid t
                 = (Inl (Error ''Computation timeout''), pollStart w cid t m)
              \<and> maxWaitTime \<le> pollStart w cid t m - t
              \<and> pollStart w cid t (m - 1) - t < maxWaitTime"
proof -
  define P where "P k \<longleftrightarrow> \<not> pollStart w cid t k - t < maxWaitTime" for k
  have "P n"
    using assms(2) by (simp add: P_def)
  define m where "m = (LEAST k. P k)"
  have Pm: "P m"
    unfolding m_def using \<open>P n\<close> by (rule LeastI)
  have le: "m \<le> n"
    unfolding m_def using \<open>P n\<close> by (rule Least_le)
  have below: "\<not> P i" if "i < m" for i
    using that not_less_Least unfolding m_def by blast
  have "\<not> P 0"
    by (simp add: P_def maxWaitTime_def)
  with Pm have pos: "0 < m"
    by (cases m) auto
  have "waitLoop w cid t 0 t = waitLoop w cid t m (pollStart w cid t m)"
    using assms(1) below le by (intro waitLoop_unroll) (auto simp: P_def)
  also have "\<dots> = (Inl (Error ''Computation timeout''), pollStart w cid t m)"
    using Pm by (intro waitLoop_timeout) (simp add: P_def)
  finally have "waitForComputationCompletion w cid t
                 = (Inl (Error ''Computation timeout''), pollStart w cid t m)"
    by (simp add: waitForComputationCompletion_def)
  moreover have "maxWaitTime \<le> pollStart w cid t m - t"
    using Pm by (simp add: P_def)
  moreover have "pollStart w cid t (m - 1) - t < maxWaitTime"
    using below [of "m - 1"] pos by (simp add: P_def)
  ultimately show ?thesis
    using pos le by blast
qed

lemma wait_all_pending:
  assumes "\<forall>i. pending w cid i"
  shows "\<exists>n>0. waitForComputationCompletion w cid t
                 = (Inl (Error ''Computation timeout''), pollStart w cid t n)
              \<and> maxWaitTime \<le> pollStart w cid t n - t
              \<and> pollStart w cid t (n - 1) - t < maxWaitTime"
proof -
  have "maxWaitTime \<le> pollStart w cid t 60 - t"
    using pollStart_lower [of t 60 w cid] by (simp add: pollInterval_def maxWaitTime_def)
  with assms wait_past_ceiling [of 60 w cid t] show ?thesis
    by blast
qed

lemma pollStart_const:
  "\<forall>i<n. snd (computation w cid i) = c \<Longrightarrow>
   pollStart w cid t n = t + (int c + pollInterval) * int n"
  by (induction n) (auto simp: algebra_simps)

lemma pollStart_instant:
  "\<forall>i<n. snd (computation w cid i) = 0 \<Longrightarrow> pollStart w cid t n = t + pollInterval * int n"
  using pollStart_const [of n w cid 0 t] by simp

lemma wait_failed_at:
  assumes "\<forall>i<n. pending w cid i" and "pollStart w cid t n - t < maxWaitTime"
    and "getComputationStatus w cid n = (Inr st, d)" and "st_status st = JStr ''failed''"
    and "toStr w (st_error st) = Inr m"
  shows "waitForComputationCompletion w cid t
           = (Inl (Error (''Computation failed: '' @ m)), pollStart w cid t n + int d)"
  using assms wait_reaches [of n w cid t] waitLoop_failed [of "pollStart w cid t n" t w cid n st d m]
  by simp

lemma wait_error_at:
  assumes "\<forall>i<n. pending w cid i" and "pollStart w cid t n - t < maxWaitTime"
    and "fst (computation w cid n) = HttpErr msg"
  shows "waitForComputationCompletion w cid t
           = (Inl (Error ''Failed to retrieve computation status''),
              pollStart w cid t n + int (snd (getComputationStatus w cid n)))"
proof -
  have "fst (getComputationStatus w cid n) = Inl (Error ''Failed to retrieve computation status'')"
    using assms(3) by (cases "computation w cid n")
      (simp add: getComputationStatus_def getComputationStatus_try_def split: sum.splits)
  then have "getComputationStatus w cid n
          = (Inl (Error ''Failed to retrieve computation status''),
             snd (getComputationStatus w cid n))"
    by (cases "getComputationStatus w cid n") simp
  with assms(1,2) wait_reaches [of n w cid t]
    waitLoop_error [of "pollStart w cid t n" t w cid n
      "Error ''Failed to retrieve computation status''" "snd (getComputationStatus w cid n)"]
  show ?thesis
    by simp
qed

lemma lookup_duration:
  "toStr w cid = Inr a \<Longrightarrow> snd (getComputationStatus w cid k) = snd (computation w cid k)"
  by (cases "computation w cid k")
     (auto simp: getComputationStatus_def getComputationStatus_try_def split: http.splits)

lemmas step_defs =
  performEncryptedComputation_def performEncryptedComputation_try_def
  getAvailableMXE_def encryptInputs_def submitComputation_def
  waitForComputationCompletion_def getComputationStatus_def getComputationStatus_try_def
  js_or_def maxWaitTime_def pollInterval_def num_or_def

lemmas world_defs =
  sample_world_def sample_request_def no_node_world_def no_crypto_world_def
  no_submit_world_def failed_world_def poll_error_world_def pending_world_def
  late_world_def slow_world_def no_payload_world_def object_payload_world_def

lemma sample_run:
  "performEncryptedComputation sample_world request 1000
     = (\<lparr> success = True, result = JArr [JNum 70], computationId = JStr ''c-1'',
          error = None, executionTime = Some 10370, gasUsed = Some 0 \<rparr>, 11370)"
  by (simp add: step_defs sample_world_def waitLoop.simps)

lemma no_payload_run:
  "performEncryptedComputation no_payload_world request 1000
     = (\<lparr> success = True, result = JUndefined, computationId = JStr ''c-1'',
          error = None, executionTime = Some 270, gasUsed = Some 0 \<rparr>, 1270)"
  by (simp add: step_defs world_defs waitLoop.simps)

lemma object_payload_run:
  "performEncryptedComputation object_payload_world request 1000
     = (\<lparr> success = True, result = JObj [(''score'', JNum 70)], computationId = JStr ''c-1'',
          error = None, executionTime = Some 270, gasUsed = Some 0 \<rparr>, 1270)"
  by (simp add: step_defs world_defs waitLoop.simps)

lemma late_pending: "i < 60 \<Longrightarrow> pending late_world (JStr c) i"
  by (simp add: pending_def late_world_def getComputationStatus_def getComputationStatus_try_def)

lemma slow_pending: "pending slow_world (JStr c) i"
  by (simp add: pending_def slow_world_def getComputationStatus_def
        getComputationStatus_try_def)

lemma sample_pending: "i < 2 \<Longrightarrow> pending sample_world (JStr c) i"
  by (simp add: pending_def sample_world_def getComputationStatus_def
        getComputationStatus_try_def)

lemma all_pending: "pending pending_world (JStr c) i"
  by (simp add: pending_def pending_world_def getComputationStatus_def
        getComputationStatus_try_def)

lemma pollStart_2: "pollStart w cid t 2 = pollStart w cid t (Suc (Suc 0))"
  by (simp add: numeral_2_eq_2)

section \<open>Results\<close>

text \<open>
  claim C1: for every request, when the node listing answers with an empty list,
  \<open>performEncryptedComputation\<close> returns a result with \<open>success: false\<close>, the error
  "No available MXE found" and an execution time that is not negative (the time the
  listing took). The operation returns a result: nothing is raised.
\<close>

theorem no_node_result:
  "fst (mxeAvailable w) = HttpOk (JArr []) \<Longrightarrow>
   fst (performEncryptedComputation w request now)
     = \<lparr> success = False, result = JUndefined, computationId = JUndefined,
         error = Some ''No available MXE found'',
         executionTime = Some (int (snd (mxeAvailable w))), gasUsed = None \<rparr>
   \<and> (\<exists>t. executionTime (fst (performEncryptedComputation w request now)) = Some t
            \<and> 0 \<le> t)"
  by (simp add: performEncryptedComputation_def performEncryptedComputation_try_def
        getAvailableMXE_empty)

theorem no_node_result_witness:
  "fst (mxeAvailable no_node_world) = HttpOk (JArr [])
   \<and> fst (performEncryptedComputation no_node_world sample_request 1000)
     = \<lparr> success = False, result = JUndefined, computationId = JUndefined,
         error = Some ''No available MXE found'',
         executionTime = Some 40, gasUsed = None \<rparr>"
  using no_node_result [of no_node_world sample_request 1000]
  by (simp add: no_node_world_def sample_world_def)

text \<open>
  claim C2 (as amended): the loop of \<open>waitForComputationCompletion\<close> tests the clock
  against a ceiling of 300000 ms and sleeps 5000 ms between lookups. When the lookups
  before the \<open>n\<close>-th are all pending, the \<open>n\<close>-th finds the computation completed
  and the loop test before it comes less than 300000 ms after the loop began, the loop
  returns the completed result when that lookup returns. When the lookups before the
  \<open>k\<close>-th are all pending and the loop test before the \<open>k\<close>-th would come 300000 ms
  or more after the loop began, the loop fails with "Computation timeout", whatever the
  \<open>k\<close>-th and later lookups would answer: a sequence that reaches completed only then
  is never seen completed. The timeout comes at the first loop test that is 300000 ms
  or more after the loop began. When every lookup is pending, that is no sooner than
  300000 ms after the loop began and less than one poll interval plus the longest
  lookup later than that; when the lookups take no time, it is at 300000 ms exactly.
\<close>

theorem poll_loop_ceiling:
  "maxWaitTime = 300000 \<and> pollInterval = 5000
   \<and> ((\<forall>i<n. pending w cid i) \<and> pollStart w cid t n - t < maxWaitTime
      \<and> getComputationStatus w cid n = (Inr st, d) \<and> st_status st = JStr ''completed''
    \<longrightarrow> waitForComputationCompletion w cid t
          = (Inr \<lparr> data = st_result st, wait_gasUsed = Some 0 \<rparr>,
             pollStart w cid t n + int d))
   \<and> ((\<forall>i. pending w cid i) \<and> (\<forall>i. snd (computation w cid i) \<le> l)
    \<longrightarrow> fst (waitForComputationCompletion w cid t) = Inl (Error ''Computation timeout'')
        \<and> 300000 \<le> snd (waitForComputationCompletion w cid t) - t
        \<and> snd (waitForComputationCompletion w cid t) - t < 300000 + 5000 + int l)
   \<and> ((\<forall>i. pending w cid i) \<and> (\<forall>i. snd (computation w cid i) = 0)
    \<longrightarrow> waitForComputationCompletion w cid t
          = (Inl (Error ''Computation timeout''), t + 300000))
   \<and> ((\<forall>i<k. pending w cid i) \<and> maxWaitTime \<le> pollStart w cid t k - t
    \<longrightarrow> fst (waitForComputationCompletion w cid t) = Inl (Error ''Computation timeout'')
        \<and> 300000 \<le> snd (waitForComputationCompletion w cid t) - t
        \<and> snd (waitForComputationCompletion w cid t) \<le> pollStart w cid t k)
   \<and> ((\<forall>i<k. pending w cid i) \<and> pollStart w cid t (k - 1) - t < maxWaitTime
      \<and> maxWaitTime \<le> pollStart w cid t k - t
    \<longrightarrow> waitForComputationCompletion w cid t
          = (Inl (Error ''Computation timeout''), pollStart w cid t k))"
proof -
  have completed: "waitForComputationCompletion w cid t
          = (Inr \<lparr> data = st_result st, wait_gasUsed = Some 0 \<rparr>, pollStart w cid t n + int d)"
    if a: "(\<forall>i<n. pending w cid i) \<and> pollStart w cid t n - t < maxWaitTime
      \<and> getComputationStatus w cid n = (Inr st, d) \<and> st_status st = JStr ''completed''"
  proof -
    from a have "waitForComputationCompletion w cid t
                   = waitLoop w cid t n (pollStart w cid t n)"
      by (intro wait_reaches) simp_all
    with a show ?thesis
      by (simp add: waitLoop_completed)
  qed
  have bounded: "fst (waitForComputationCompletion w cid t) = Inl (Error ''Computation timeout'')
        \<and> 300000 \<le> snd (waitForComputationCompletion w cid t) - t
        \<and> snd (waitForComputationCompletion w cid t) - t < 300000 + 5000 + int l"
    if a: "(\<forall>i. pending w cid i) \<and> (\<forall>i. snd (computation w cid i) \<le> l)"
  proof -
    from a obtain m where m: "0 < m"
      "waitForComputationCompletion w cid t
         = (Inl (Error ''Computation timeout''), pollStart w cid t m)"
      "maxWaitTime \<le> pollStart w cid t m - t"
      "pollStart w cid t (m - 1) - t < maxWaitTime"
      using wait_all_pending [of w cid t] by blast
    from m(1) obtain j where j: "m = Suc j"
      by (cases m) auto
    have "snd (computation w cid j) \<le> l"
      using a by blast
    with m(3,4) j have
      "300000 \<le> pollStart w cid t m - t" "pollStart w cid t m - t < 300000 + 5000 + int l"
      by (simp_all add: maxWaitTime_def pollInterval_def)
    with m(2) show ?thesis
      by simp
  qed
  have instant: "waitForComputationCompletion w cid t
          = (Inl (Error ''Computation timeout''), t + 300000)"
    if a: "(\<forall>i. pending w cid i) \<and> (\<forall>i. snd (computation w cid i) = 0)"
  proof -
    from a have ps: "pollStart w cid t j = t + pollInterval * int j" for j
      by (intro pollStart_instant) simp
    have "waitLoop w cid t 0 t = waitLoop w cid t 60 (pollStart w cid t 60)"
      using a by (intro waitLoop_unroll) (simp_all add: ps pollInterval_def maxWaitTime_def)
    then have "waitForComputationCompletion w cid t
                 = waitLoop w cid t 60 (pollStart w cid t 60)"
      by (simp add: waitForComputationCompletion_def)
    also have "\<dots> = (Inl (Error ''Computation timeout''), pollStart w cid t 60)"
      by (intro waitLoop_timeout) (simp add: ps pollInterval_def maxWaitTime_def)
    finally show ?thesis
      by (simp add: ps pollInterval_def)
  qed
  have late: "fst (waitForComputationCompletion w cid t) = Inl (Error ''Computation timeout'')
        \<and> 300000 \<le> snd (waitForComputationCompletion w cid t) - t
        \<and> snd (waitForComputationCompletion w cid t) \<le> pollStart w cid t k"
    if a: "(\<forall>i<k. pending w cid i) \<and> maxWaitTime \<le> pollStart w cid t k - t"
  proof -
    from a obtain m where m: "m \<le> k"
      "waitForComputationCompletion w cid t
         = (Inl (Error ''Computation timeout''), pollStart w cid t m)"
      "maxWaitTime \<le> pollStart w cid t m - t"
      using wait_past_ceiling [of k w cid t] by blast
    from m(1) have "pollStart w cid t m \<le> pollStart w cid t k"
      by (rule pollStart_mono)
    with m(2,3) show ?thesis
      by (simp add: maxWaitTime_def)
  qed
  have exact: "waitForComputationCompletion w cid t
          = (Inl (Error ''Computation timeout''), pollStart w cid t k)"
    if a: "(\<forall>i<k. pending w cid i) \<and> pollStart w cid t (k - 1) - t < maxWaitTime
      \<and> maxWaitTime \<le> pollStart w cid t k - t"
  proof -
    have "pollStart w cid t i - t < maxWaitTime" if "i < k" for i
    proof -
      from that have "i \<le> k - 1"
        by simp
      then have "pollStart w cid t i \<le> pollStart w cid t (k - 1)"
        by (rule pollStart_mono)
      with a show ?thesis
        by linarith
    qed
    with a have "waitLoop w cid t 0 t = waitLoop w cid t k (pollStart w cid t k)"
      by (intro waitLoop_unroll) simp_all
    also have "\<dots> = (Inl (Error ''Computation timeout''), pollStart w cid t k)"
      using a by (intro waitLoop_timeout) simp
    finally show ?thesis
      by (simp add: waitForComputationCompletion_def)
  qed
  show ?thesis
  proof (intro conjI)
    show "maxWaitTime = 300000"
      by (simp add: maxWaitTime_def)
    show "pollInterval = 5000"
      by (simp add: pollInterval_def)
    show "(\<forall>i<n. pending w cid i) \<and> pollStart w cid t n - t < maxWaitTime
      \<and> getComputationStatus w cid n = (Inr st, d) \<and> st_status st = JStr ''completed''
    \<longrightarrow> waitForComputationCompletion w cid t
          = (Inr \<lparr> data = st_result st, wait_gasUsed = Some 0 \<rparr>,
             pollStart w cid t n + int d)"
      using completed by (rule impI)
    show "(\<forall>i. pending w cid i) \<and> (\<forall>i. snd (computation w cid i) \<le> l)
    \<longrightarrow> fst (waitForComputationCompletion w cid t) = Inl (Error ''Computation timeout'')
        \<and> 300000 \<le> snd (waitForComputationCompletion w cid t) - t
        \<and> snd (waitForComputationCompletion w cid t) - t < 300000 + 5000 + int l"
      using bounded by (rule impI)
    show "(\<forall>i. pending w cid i) \<and> (\<forall>i. snd (computation w cid i) = 0)
    \<longrightarrow> waitForComputationCompletion w cid t
          = (Inl (Error ''Computation timeout''), t + 300000)"
      using instant by (rule impI)
    show "(\<forall>i<k. pending w cid i) \<and> maxWaitTime \<le> pollStart w cid t k - t
    \<longrightarrow> fst (waitForComputationCompletion w cid t) = Inl (Error ''Computation timeout'')
        \<and> 300000 \<le> snd (waitForComputationCompletion w cid t) - t
        \<and> snd (waitForComputationCompletion w cid t) \<le> pollStart w cid t k"
      using late by (rule impI)
    show "(\<forall>i<k. pending w cid i) \<and> pollStart w cid t (k - 1) - t < maxWaitTime
      \<and> maxWaitTime \<le> pollStart w cid t k - t
    \<longrightarrow> waitForComputationCompletion w cid t
          = (Inl (Error ''Computation timeout''), pollStart w cid t k)"
      using exact by (rule impI)
  qed
qed

theorem poll_loop_ceiling_witness:
  "pending sample_world (JStr ''c-1'') 0
   \<and> pending sample_world (JStr ''c-1'') 1
   \<and> pollStart sample_world (JStr ''c-1'') 1220 2 - 1220 < maxWaitTime
   \<and> waitForComputationCompletion sample_world (JStr ''c-1'') 1220
       = (Inr \<lparr> data = JArr [JNum 70], wait_gasUsed = Some 0 \<rparr>, 11370)
   \<and> (\<forall>i. pending pending_world (JStr ''c-1'') i)
   \<and> (\<forall>i. snd (computation pending_world (JStr ''c-1'') i) = 0)
   \<and> waitForComputationCompletion pending_world (JStr ''c-1'') 1220
       = (Inl (Error ''Computation timeout''), 301220)
   \<and> pending late_world (JStr ''c-1'') 0
   \<and> pending late_world (JStr ''c-1'') 59
   \<and> pollStart late_world (JStr ''c-1'') 0 59 = 295000
   \<and> pollStart late_world (JStr ''c-1'') 0 60 = 300000
   \<and> fst (computation late_world (JStr ''c-1'') 60)
       = HttpOk (JObj [(''status'', JStr ''completed''), (''result'', JArr [JNum 70])])
   \<and> waitForComputationCompletion late_world (JStr ''c-1'') 0
       = (Inl (Error ''Computation timeout''), 300000)"
proof -
  have a: "\<forall>i<2. pending sample_world (JStr ''c-1'') i"
    by (simp add: sample_pending)
  have b: "pollStart sample_world (JStr ''c-1'') 1220 2 = 11320"
    by (simp add: pollStart_2 sample_world_def pollInterval_def)
  let ?st = "\<lparr> st_id = JStr ''c-1'', st_status = JStr ''completed'',
               st_progress = JNum 0, st_result = JArr [JNum 70],
               st_error = JUndefined, st_createdAt = JUndefined,
               st_completedAt = JUndefined \<rparr>"
  have c: "getComputationStatus sample_world (JStr ''c-1'') 2 = (Inr ?st, 50)"
    by (simp add: sample_world_def getComputationStatus_def getComputationStatus_try_def
          js_or_def)
  have d: "\<forall>i. pending pending_world (JStr ''c-1'') i"
    by (simp add: all_pending)
  have e: "\<forall>i. snd (computation pending_world (JStr ''c-1'') i) = 0"
    by (simp add: pending_world_def)
  have f: "\<forall>i<60. pending late_world (JStr ''c-1'') i"
    by (simp add: late_pending)
  have g: "pollStart late_world (JStr ''c-1'') 0 60 = 300000"
    using pollStart_instant [of 60 late_world "JStr ''c-1''" 0]
    by (simp add: late_world_def pollInterval_def)
  have g': "pollStart late_world (JStr ''c-1'') 0 59 = 295000"
    using pollStart_instant [of 59 late_world "JStr ''c-1''" 0]
    by (simp add: late_world_def pollInterval_def)
  have h: "fst (computation late_world (JStr ''c-1'') 60)
       = HttpOk (JObj [(''status'', JStr ''completed''), (''result'', JArr [JNum 70])])"
    by (simp add: late_world_def)
  have first: "waitForComputationCompletion sample_world (JStr ''c-1'') 1220
       = (Inr \<lparr> data = JArr [JNum 70], wait_gasUsed = Some 0 \<rparr>, 11370)"
    using a b c
      poll_loop_ceiling [of 2 sample_world "JStr ''c-1''" 1220 ?st 50 0 0,
        THEN conjunct2, THEN conjunct2, THEN conjunct1]
    by (simp add: maxWaitTime_def)
  have second: "waitForComputationCompletion pending_world (JStr ''c-1'') 1220
       = (Inl (Error ''Computation timeout''), 301220)"
    using d e
      poll_loop_ceiling [of 0 pending_world "JStr ''c-1''" 1220 ?st 0 0 0,
        THEN conjunct2, THEN conjunct2, THEN conjunct2, THEN conjunct2, THEN conjunct1]
    by simp
  have third: "fst (waitForComputationCompletion late_world (JStr ''c-1'') 0)
                 = Inl (Error ''Computation timeout'')
               \<and> 300000 \<le> snd (waitForComputationCompletion late_world (JStr ''c-1'') 0) - 0
               \<and> snd (waitForComputationCompletion late_world (JStr ''c-1'') 0)
                   \<le> pollStart late_world (JStr ''c-1'') 0 60"
    using f g
      poll_loop_ceiling [of 0 late_world "JStr ''c-1''" 0 ?st 0 0 60,
        THEN conjunct2, THEN conjunct2, THEN conjunct2, THEN conjunct2, THEN conjunct2,
        THEN conjunct1]
    by (simp add: maxWaitTime_def)
  have fourth: "waitForComputationCompletion late_world (JStr ''c-1'') 0
                  = (Inl (Error ''Computation timeout''), 300000)"
    using f g g'
      poll_loop_ceiling [of 0 late_world "JStr ''c-1''" 0 ?st 0 0 60,
        THEN conjunct2, THEN conjunct2, THEN conjunct2, THEN conjunct2, THEN conjunct2,
        THEN conjunct2]
    by (simp add: maxWaitTime_def)
  from a b d e g g' h first second third fourth show ?thesis
    by (simp add: maxWaitTime_def sample_pending late_pending)
qed

text \<open>
  The claim as first stated fails twice. A status sequence that reaches completed at
  its sixty-first lookup, each lookup answered at once, is never seen completed: the
  loop test fails at 300000 ms and the loop times out. And when every lookup is pending
  and takes six seconds, the timeout comes at 308000 ms, more than one poll interval
  after the ceiling.
\<close>

theorem late_completion_counterexample:
  "fst (getComputationStatus late_world (JStr ''c-1'') 60)
     = Inr \<lparr> st_id = JStr ''c-1'', st_status = JStr ''completed'', st_progress = JNum 0,
             st_result = JArr [JNum 70], st_error = JUndefined, st_createdAt = JUndefined,
             st_completedAt = JUndefined \<rparr>
   \<and> waitForComputationCompletion late_world (JStr ''c-1'') 0
       = (Inl (Error ''Computation timeout''), 300000)
   \<and> waitForComputationCompletion slow_world (JStr ''c-1'') 0
       = (Inl (Error ''Computation timeout''), 308000)"
proof -
  have ps: "pollStart late_world (JStr ''c-1'') 0 k = pollInterval * int k" if "k \<le> 60" for k
    using that pollStart_instant [of k late_world "JStr ''c-1''" 0]
    by (simp add: late_world_def)
  have "waitLoop late_world (JStr ''c-1'') 0 0 0
          = waitLoop late_world (JStr ''c-1'') 0 60 (pollStart late_world (JStr ''c-1'') 0 60)"
    by (intro waitLoop_unroll) (simp_all add: late_pending ps pollInterval_def maxWaitTime_def)
  also have "\<dots> = (Inl (Error ''Computation timeout''), 300000)"
    by (simp add: waitLoop_timeout ps pollInterval_def maxWaitTime_def)
  finally have late: "waitForComputationCompletion late_world (JStr ''c-1'') 0
                        = (Inl (Error ''Computation timeout''), 300000)"
    by (simp add: waitForComputationCompletion_def)
  have qs: "pollStart slow_world (JStr ''c-1'') 0 k = 11000 * int k" for k
    using pollStart_const [of k slow_world "JStr ''c-1''" 6000 0]
    by (simp add: slow_world_def pollInterval_def)
  have "waitLoop slow_world (JStr ''c-1'') 0 0 0
          = waitLoop slow_world (JStr ''c-1'') 0 28 (pollStart slow_world (JStr ''c-1'') 0 28)"
    by (intro waitLoop_unroll) (simp_all add: slow_pending qs maxWaitTime_def)
  also have "\<dots> = (Inl (Error ''Computation timeout''), 308000)"
    by (simp add: waitLoop_timeout qs maxWaitTime_def)
  finally have slow: "waitForComputationCompletion slow_world (JStr ''c-1'') 0
                        = (Inl (Error ''Computation timeout''), 308000)"
    by (simp add: waitForComputationCompletion_def)
  from late slow show ?thesis
    by (simp add: late_world_def getComputationStatus_def getComputationStatus_try_def
          js_or_def)
qed

text \<open>
  claim C3: whatever the \<open>try\<close> block of \<open>performEncryptedComputation\<close> throws is
  turned into a result with \<open>success: false\<close>, the message of the error and the time
  elapsed, and each of the four steps throws inside that block: no node, a failed
  encryption, a failed submission, a failed wait. In particular, when a lookup reports
  the status failed with an error message, the result carries
  "Computation failed: " followed by that message.
\<close>

theorem exceptions_become_results:
  "(performEncryptedComputation_try w request now = (Inl e, t)
    \<longrightarrow> performEncryptedComputation w request now
          = (\<lparr> success = False, result = JUndefined, computationId = JUndefined,
               error = Some (message e), executionTime = Some (t - now),
               gasUsed = None \<rparr>, t))
   \<and> (getAvailableMXE w = (None, d1)
    \<longrightarrow> performEncryptedComputation_try w request now
          = (Inl (Error ''No available MXE found''), now + int d1))
   \<and> (getAvailableMXE w = (Some m, d1)
      \<and> encryptInputs w (inputs request) (mxe_publicKey m) = (Inl e2, d2)
    \<longrightarrow> performEncryptedComputation_try w request now
          = (Inl e2, now + int d1 + int d2))
   \<and> (getAvailableMXE w = (Some m, d1)
      \<and> encryptInputs w (inputs request) (mxe_publicKey m) = (Inr enc, d2)
      \<and> submitComputation w
            \<lparr> sub_mxeId = mxe_id m, sub_functionName = functionName request,
              sub_encryptedInputs = enc, sub_metadata = metadata request \<rparr>
            (now + int d1 + int d2) = (Inl e3, d3)
    \<longrightarrow> performEncryptedComputation_try w request now
          = (Inl e3, now + int d1 + int d2 + int d3))
   \<and> (getAvailableMXE w = (Some m, d1)
      \<and> encryptInputs w (inputs request) (mxe_publicKey m) = (Inr enc, d2)
      \<and> submitComputation w
            \<lparr> sub_mxeId = mxe_id m, sub_functionName = functionName request,
              sub_encryptedInputs = enc, sub_metadata = metadata request \<rparr>
            (now + int d1 + int d2) = (Inr cid, d3)
      \<and> waitForComputationCompletion w cid (now + int d1 + int d2 + int d3) = (Inl e4, t4)
    \<longrightarrow> performEncryptedComputation_try w request now = (Inl e4, t4))
   \<and> (getAvailableMXE w = (Some m, d1)
      \<and> encryptInputs w (inputs request) (mxe_publicKey m) = (Inr enc, d2)
      \<and> submitComputation w
            \<lparr> sub_mxeId = mxe_id m, sub_functionName = functionName request,
              sub_encryptedInputs = enc, sub_metadata = metadata request \<rparr>
            (now + int d1 + int d2) = (Inr cid, d3)
      \<and> (\<forall>i<n. pending w cid i)
      \<and> pollStart w cid (now + int d1 + int d2 + int d3) n
            - (now + int d1 + int d2 + int d3) < maxWaitTime
      \<and> getComputationStatus w cid n = (Inr st, d)
      \<and> st_status st = JStr ''failed'' \<and> st_error st = JStr msg
    \<longrightarrow> \<not> success (fst (performEncryptedComputation w request now))
        \<and> error (fst (performEncryptedComputation w request now))
            = Some (''Computation failed: '' @ msg))"
proof (intro conjI)
  show "performEncryptedComputation_try w request now = (Inl e, t)
    \<longrightarrow> performEncryptedComputation w request now
          = (\<lparr> success = False, result = JUndefined, computationId = JUndefined,
               error = Some (message e), executionTime = Some (t - now),
               gasUsed = None \<rparr>, t)"
    by (simp add: performEncryptedComputation_def)
  show "getAvailableMXE w = (None, d1)
    \<longrightarrow> performEncryptedComputation_try w request now
          = (Inl (Error ''No available MXE found''), now + int d1)"
    by (simp add: performEncryptedComputation_try_def)
  show "getAvailableMXE w = (Some m, d1)
      \<and> encryptInputs w (inputs request) (mxe_publicKey m) = (Inl e2, d2)
    \<longrightarrow> performEncryptedComputation_try w request now
          = (Inl e2, now + int d1 + int d2)"
    by (simp add: performEncryptedComputation_try_def)
  show "getAvailableMXE w = (Some m, d1)
      \<and> encryptInputs w (inputs request) (mxe_publicKey m) = (Inr enc, d2)
      \<and> submitComputation w
            \<lparr> sub_mxeId = mxe_id m, sub_functionName = functionName request,
              sub_encryptedInputs = enc, sub_metadata = metadata request \<rparr>
            (now + int d1 + int d2) = (Inl e3, d3)
    \<longrightarrow> performEncryptedComputation_try w request now
          = (Inl e3, now + int d1 + int d2 + int d3)"
    by (simp add: performEncryptedComputation_try_def)
  show "getAvailableMXE w = (Some m, d1)
      \<and> encryptInputs w (inputs request) (mxe_publicKey m) = (Inr enc, d2)
      \<and> submitComputation w
            \<lparr> sub_mxeId = mxe_id m, sub_functionName = functionName request,
              sub_encryptedInputs = enc, sub_metadata = metadata request \<rparr>
            (now + int d1 + int d2) = (Inr cid, d3)
      \<and> waitForComputationCompletion w cid (now + int d1 + int d2 + int d3) = (Inl e4, t4)
    \<longrightarrow> performEncryptedComputation_try w request now = (Inl e4, t4)"
    by (simp add: performEncryptedComputation_try_def)
  show "getAvailableMXE w = (Some m, d1)
      \<and> encryptInputs w (inputs request) (mxe_publicKey m) = (Inr enc, d2)
      \<and> submitComputation w
            \<lparr> sub_mxeId = mxe_id m, sub_functionName = functionName request,
              sub_encryptedInputs = enc, sub_metadata = metadata request \<rparr>
            (now + int d1 + int d2) = (Inr cid, d3)
      \<and> (\<forall>i<n. pending w cid i)
      \<and> pollStart w cid (now + int d1 + int d2 + int d3) n
            - (now + int d1 + int d2 + int d3) < maxWaitTime
      \<and> getComputationStatus w cid n = (Inr st, d)
      \<and> st_status st = JStr ''failed'' \<and> st_error st = JStr msg
    \<longrightarrow> \<not> success (fst (performEncryptedComputation w request now))
        \<and> error (fst (performEncryptedComputation w request now))
            = Some (''Computation failed: '' @ msg)"
  proof
    assume a: "getAvailableMXE w = (Some m, d1)
      \<and> encryptInputs w (inputs request) (mxe_publicKey m) = (Inr enc, d2)
      \<and> submitComputation w
            \<lparr> sub_mxeId = mxe_id m, sub_functionName = functionName request,
              sub_encryptedInputs = enc, sub_metadata = metadata request \<rparr>
            (now + int d1 + int d2) = (Inr cid, d3)
      \<and> (\<forall>i<n. pending w cid i)
      \<and> pollStart w cid (now + int d1 + int d2 + int d3) n
            - (now + int d1 + int d2 + int d3) < maxWaitTime
      \<and> getComputationStatus w cid n = (Inr st, d)
      \<and> st_status st = JStr ''failed'' \<and> st_error st = JStr msg"
    then have "waitForComputationCompletion w cid (now + int d1 + int d2 + int d3)
                 = (Inl (Error (''Computation failed: '' @ msg)),
                    pollStart w cid (now + int d1 + int d2 + int d3) n + int d)"
      using wait_failed_at [of n w cid "now + int d1 + int d2 + int d3" st d] by simp
    with a show "\<not> success (fst (performEncryptedComputation w request now))
        \<and> error (fst (performEncryptedComputation w request now))
            = Some (''Computation failed: '' @ msg)"
      by (simp add: performEncryptedComputation_def performEncryptedComputation_try_def)
  qed
qed

theorem exceptions_become_results_witness:
  "performEncryptedComputation no_node_world sample_request 1000
     = (\<lparr> success = False, result = JUndefined, computationId = JUndefined,
          error = Some ''No available MXE found'', executionTime = Some 40,
          gasUsed = None \<rparr>, 1040)
   \<and> performEncryptedComputation no_crypto_world sample_request 1000
     = (\<lparr> success = False, result = JUndefined, computationId = JUndefined,
          error = Some ''Input encryption failed'', executionTime = Some 45,
          gasUsed = None \<rparr>, 1045)
   \<and> performEncryptedComputation no_submit_world sample_request 1000
     = (\<lparr> success = False, result = JUndefined, computationId = JUndefined,
          error = Some ''Computation submission failed'', executionTime = Some 220,
          gasUsed = None \<rparr>, 1220)
   \<and> performEncryptedComputation failed_world sample_request 1000
     = (\<lparr> success = False, result = JUndefined, computationId = JUndefined,
          error = Some ''Computation failed: bad input'', executionTime = Some 5320,
          gasUsed = None \<rparr>, 6320)"
proof -
  let ?m = "\<lparr> mxe_id = JStr ''mxe-1'', mxe_publicKey = JStr ''pk-1'',
              mxe_capacity = JNum 8 \<rparr>"
  let ?enc = "\<lparr> ciphertext = ''5f'', nonce = ''00'', publicKey = ''pem'' \<rparr>"
  let ?st = "\<lparr> st_id = JStr ''c-1'', st_status = JStr ''failed'', st_progress = JNum 0,
               st_result = JUndefined, st_error = JStr ''bad input'',
               st_createdAt = JUndefined, st_completedAt = JUndefined \<rparr>"
  have a: "performEncryptedComputation_try no_node_world sample_request 1000
             = (Inl (Error ''No available MXE found''), 1040)"
    using exceptions_become_results [where w = no_node_world and request = sample_request and now = 1000
                 and ?d1.0 = 40]
    by (simp add: getAvailableMXE_def world_defs)
  have b: "performEncryptedComputation_try no_crypto_world sample_request 1000
             = (Inl (Error ''Input encryption failed''), 1045)"
    using exceptions_become_results [where w = no_crypto_world and request = sample_request and now = 1000
                 and ?d1.0 = 40 and m = ?m and ?d2.0 = 5
                 and ?e2.0 = "Error ''Input encryption failed''"]
    by (simp add: getAvailableMXE_def encryptInputs_def js_or_def world_defs)
  have c: "performEncryptedComputation_try no_submit_world sample_request 1000
             = (Inl (Error ''Computation submission failed''), 1220)"
    using exceptions_become_results [where w = no_submit_world and request = sample_request and now = 1000
                 and ?d1.0 = 40 and m = ?m and ?d2.0 = 120 and enc = ?enc
                 and ?e3.0 = "Error ''Computation submission failed''" and ?d3.0 = 60]
    by (simp add: getAvailableMXE_def encryptInputs_def submitComputation_def world_defs)
  have pend: "\<forall>i<1. pending failed_world (JStr ''c-1'') i"
    by (simp add: pending_def getComputationStatus_def getComputationStatus_try_def
          world_defs)
  have st: "getComputationStatus failed_world (JStr ''c-1'') 1 = (Inr ?st, 50)"
    by (simp add: getComputationStatus_def getComputationStatus_try_def js_or_def world_defs)
  have d: "\<not> success (fst (performEncryptedComputation failed_world sample_request 1000))
           \<and> error (fst (performEncryptedComputation failed_world sample_request 1000))
               = Some ''Computation failed: bad input''"
    using pend st
      exceptions_become_results [where w = failed_world and request = sample_request and now = 1000
                 and ?d1.0 = 40 and m = ?m and ?d2.0 = 120 and enc = ?enc
                 and ?d3.0 = 60 and cid = "JStr ''c-1''" and n = 1 and st = ?st
                 and d = 50 and msg = "''bad input''"]
    by (simp add: getAvailableMXE_def encryptInputs_def submitComputation_def
          maxWaitTime_def pollInterval_def world_defs)
  have e: "performEncryptedComputation_try failed_world sample_request 1000
             = (Inl (Error ''Computation failed: bad input''), 6320)"
    by (simp add: step_defs world_defs waitLoop.simps)
  from a b c d e show ?thesis
    using exceptions_become_results [where w = no_node_world and request = sample_request and now = 1000
                 and e = "Error ''No available MXE found''" and t = 1040]
      exceptions_become_results [where w = no_crypto_world and request = sample_request and now = 1000
                 and e = "Error ''Input encryption failed''" and t = 1045]
      exceptions_become_results [where w = no_submit_world and request = sample_request and now = 1000
                 and e = "Error ''Computation submission failed''" and t = 1220]
      exceptions_become_results [where w = failed_world and request = sample_request and now = 1000
                 and e = "Error ''Computation failed: bad input''" and t = 6320]
    by simp
qed

text \<open>
  claim C4: \<open>getNetworkStatus\<close> never raises. Whatever its \<open>try\<close> block throws, and
  in particular when the request fails in transport or the remote answers with an error
  status, it returns the fixed value with \<open>connected: false\<close> and zero for
  \<open>activeNodes\<close>, \<open>averageLatency\<close>, \<open>mxeCount\<close> and \<open>totalComputations\<close>.
\<close>

theorem getNetworkStatus_never_raises:
  "(getNetworkStatus_try w = Inl e \<or> fst (networkStatus w) = HttpErr m) \<Longrightarrow>
   getNetworkStatus w
     = \<lparr> connected = JBool False, activeNodes = JNum 0, averageLatency = JNum 0,
         networkHealth = JStr ''error'', mxeCount = JNum 0, totalComputations = JNum 0 \<rparr>"
  by (cases "networkStatus w")
     (auto simp: getNetworkStatus_def getNetworkStatus_try_def)

theorem getNetworkStatus_never_raises_witness:
  "fst (networkStatus sample_world) = HttpErr ''timeout of 30000ms exceeded''
   \<and> getNetworkStatus sample_world
     = \<lparr> connected = JBool False, activeNodes = JNum 0, averageLatency = JNum 0,
         networkHealth = JStr ''error'', mxeCount = JNum 0, totalComputations = JNum 0 \<rparr>"
  using getNetworkStatus_never_raises
          [of sample_world _ "''timeout of 30000ms exceeded''"]
  by (simp add: sample_world_def)

text \<open>
  claim C5: when the computation succeeded with an array for its result, each field of
  the risk assessment is the array's entry at its position when there is one and it is
  truthy, and otherwise its default: 50 for the risk score, false for the approval, 0
  for the maximal amount, 0.5 for the confidence. The collateral validation does the
  same with the defaults false, 0 and 1.5 for the required ratio.
\<close>

theorem wrappers_default_missing_positions:
  "(fst (performEncryptedComputation w (riskAssessmentRequest w p now) now) = r1
      \<and> success r1 \<and> result r1 = JArr xs
    \<longrightarrow> fst (performEncryptedRiskAssessment w p now)
          = Inr \<lparr> riskScore = (if 0 < length xs \<and> truthy (xs ! 0) then xs ! 0 else JNum 50),
                  approved = (if 1 < length xs \<and> truthy (xs ! 1) then xs ! 1
                              else JBool False),
                  maxAmount = (if 2 < length xs \<and> truthy (xs ! 2) then xs ! 2 else JNum 0),
                  confidence = (if 3 < length xs \<and> truthy (xs ! 3) then xs ! 3
                                else JNum 0.5) \<rparr>)
   \<and> (fst (performEncryptedComputation w (collateralValidationRequest w c l now) now) = r2
      \<and> success r2 \<and> result r2 = JArr ys
    \<longrightarrow> fst (performEncryptedCollateralValidation w c l now)
          = Inr \<lparr> valid = (if 0 < length ys \<and> truthy (ys ! 0) then ys ! 0 else JBool False),
                  ratio = (if 1 < length ys \<and> truthy (ys ! 1) then ys ! 1 else JNum 0),
                  requiredRatio = (if 2 < length ys \<and> truthy (ys ! 2) then ys ! 2
                                   else JNum 1.5) \<rparr>)"
proof -
  have risk: "fst (performEncryptedRiskAssessment w p now)
          = Inr \<lparr> riskScore = (if 0 < length xs \<and> truthy (xs ! 0) then xs ! 0 else JNum 50),
                  approved = (if 1 < length xs \<and> truthy (xs ! 1) then xs ! 1
                              else JBool False),
                  maxAmount = (if 2 < length xs \<and> truthy (xs ! 2) then xs ! 2 else JNum 0),
                  confidence = (if 3 < length xs \<and> truthy (xs ! 3) then xs ! 3
                                else JNum 0.5) \<rparr>"
    if "fst (performEncryptedComputation w (riskAssessmentRequest w p now) now) = r1
        \<and> success r1 \<and> result r1 = JArr xs"
    using that by (cases "performEncryptedComputation w (riskAssessmentRequest w p now) now")
      (simp add: performEncryptedRiskAssessment_def js_or_def)
  have coll: "fst (performEncryptedCollateralValidation w c l now)
          = Inr \<lparr> valid = (if 0 < length ys \<and> truthy (ys ! 0) then ys ! 0 else JBool False),
                  ratio = (if 1 < length ys \<and> truthy (ys ! 1) then ys ! 1 else JNum 0),
                  requiredRatio = (if 2 < length ys \<and> truthy (ys ! 2) then ys ! 2
                                   else JNum 1.5) \<rparr>"
    if "fst (performEncryptedComputation w (collateralValidationRequest w c l now) now) = r2
        \<and> success r2 \<and> result r2 = JArr ys"
    using that
    by (cases "performEncryptedComputation w (collateralValidationRequest w c l now) now")
      (simp add: performEncryptedCollateralValidation_def js_or_def)
  from risk coll show ?thesis
    by presburger
qed

theorem wrappers_default_missing_positions_witness:
  "fst (performEncryptedComputation sample_world
          (riskAssessmentRequest sample_world (JStr ''p'') 1000) 1000)
     = \<lparr> success = True, result = JArr [JNum 70], computationId = JStr ''c-1'',
         error = None, executionTime = Some 10370, gasUsed = Some 0 \<rparr>
   \<and> fst (performEncryptedRiskAssessment sample_world (JStr ''p'') 1000)
       = Inr \<lparr> riskScore = JNum 70, approved = JBool False, maxAmount = JNum 0,
               confidence = JNum 0.5 \<rparr>
   \<and> fst (performEncryptedCollateralValidation sample_world 150 100 1000)
       = Inr \<lparr> valid = JNum 70, ratio = JNum 0, requiredRatio = JNum 1.5 \<rparr>"
  using wrappers_default_missing_positions
          [of sample_world "JStr ''p''" 1000
              "fst (performEncryptedComputation sample_world
                      (riskAssessmentRequest sample_world (JStr ''p'') 1000) 1000)"
              "[JNum 70]" 150 100
              "fst (performEncryptedComputation sample_world
                      (collateralValidationRequest sample_world 150 100 1000) 1000)"
              "[JNum 70]"]
  by (simp add: sample_run)

text \<open>
  claim C6: when the request fails in transport, \<open>getComputationHistory\<close> returns the
  empty list and \<open>getAvailableFunctions\<close> returns the list of the three names
  riskAssessment, collateralValidation and interestCalculation; neither raises.
\<close>

theorem accessors_default_on_transport_failure:
  "(fst (computationList w (if limit = JUndefined then JNum 50 else limit)) = HttpErr m
      \<longrightarrow> getComputationHistory w limit = JArr [])
   \<and> (fst (functionNames w) = HttpErr m'
      \<longrightarrow> getAvailableFunctions w
            = JArr [JStr ''riskAssessment'', JStr ''collateralValidation'',
                    JStr ''interestCalculation''])"
proof (intro conjI impI)
  assume h: "fst (computationList w (if limit = JUndefined then JNum 50 else limit)) = HttpErr m"
  define q where "q = (if limit = JUndefined then JNum 50 else limit)"
  have "getComputationHistory_try w limit
          = (case toStr w q of
               Inl e \<Rightarrow> Inl e
             | Inr address \<Rightarrow>
                 (case computationList w q of
                    (HttpErr m, d) \<Rightarrow> Inl (AxiosError m)
                  | (HttpOk dat, d) \<Rightarrow> Inr (js_or dat (JArr []))))"
    by (simp only: getComputationHistory_try_def q_def)
  moreover have "fst (computationList w q) = HttpErr m"
    using h by (simp only: q_def)
  ultimately have "\<exists>e. getComputationHistory_try w limit = Inl e"
    by (cases "computationList w q"; cases "toStr w q") simp_all
  then show "getComputationHistory w limit = JArr []"
    by (auto simp: getComputationHistory_def)
next
  assume "fst (functionNames w) = HttpErr m'"
  then show "getAvailableFunctions w
            = JArr [JStr ''riskAssessment'', JStr ''collateralValidation'',
                    JStr ''interestCalculation'']"
    by (cases "functionNames w")
       (simp add: getAvailableFunctions_def getAvailableFunctions_try_def)
qed

theorem accessors_default_on_transport_failure_witness:
  "fst (computationList sample_world (JNum 50)) = HttpErr ''Network Error''
   \<and> getComputationHistory sample_world JUndefined = JArr []
   \<and> fst (functionNames sample_world) = HttpErr ''Network Error''
   \<and> getAvailableFunctions sample_world
       = JArr [JStr ''riskAssessment'', JStr ''collateralValidation'',
               JStr ''interestCalculation'']"
  using accessors_default_on_transport_failure
          [of sample_world JUndefined "''Network Error''" "''Network Error''"]
  by (simp add: sample_world_def)

text \<open>
  claim C7: when the single remote lookup of \<open>getComputationStatus\<close> fails in
  transport, the function raises an error to its caller (the error
  "Failed to retrieve computation status"); it returns no status and no default.
\<close>

theorem getComputationStatus_propagates:
  "fst (computation w cid k) = HttpErr m \<Longrightarrow>
   fst (getComputationStatus w cid k)
     = Inl (Error ''Failed to retrieve computation status'')"
  by (cases "computation w cid k")
     (simp add: getComputationStatus_def getComputationStatus_try_def split: sum.splits)

theorem getComputationStatus_propagates_witness:
  "fst (computation poll_error_world (JStr ''c-1'') 1) = HttpErr ''Network Error''
   \<and> fst (getComputationStatus poll_error_world (JStr ''c-1'') 1)
       = Inl (Error ''Failed to retrieve computation status'')"
  using getComputationStatus_propagates
          [of poll_error_world "JStr ''c-1''" 1 "''Network Error''"]
  by (simp add: poll_error_world_def sample_world_def)

text \<open>
  claim C8: every result of \<open>performEncryptedComputation\<close> with \<open>success: true\<close>
  has \<open>gasUsed\<close> 0, since the loop returns 0 whatever the remote answered.
\<close>

theorem gasUsed_zero:
  "success (fst (performEncryptedComputation w request now)) \<Longrightarrow>
   gasUsed (fst (performEncryptedComputation w request now)) = Some 0"
  by (auto simp: performEncryptedComputation_def performEncryptedComputation_try_def
        waitForComputationCompletion_def num_or_def
        split: prod.splits option.splits sum.splits dest: waitLoop_gas)

theorem gasUsed_zero_witness:
  "success (fst (performEncryptedComputation sample_world sample_request 1000))
   \<and> gasUsed (fst (performEncryptedComputation sample_world sample_request 1000)) = Some 0"
  using gasUsed_zero [of sample_world sample_request 1000]
  by (simp add: sample_run)

text \<open>
  claim C9: when the lookups before the \<open>n\<close>-th are pending and the \<open>n\<close>-th fails
  in transport, the loop ends with the error of that lookup at the moment the lookup
  returns: it neither sleeps nor polls again. The composite operation then returns
  \<open>success: false\<close> with that error, whatever later lookups would have answered.
  The lookup returns after the duration of its request, the identifier having a string
  to be written into the address.
\<close>

theorem poll_error_ends_loop:
  "((\<forall>i<n. pending w cid i) \<and> pollStart w cid t n - t < maxWaitTime
      \<and> fst (computation w cid n) = HttpErr msg
    \<longrightarrow> waitForComputationCompletion w cid t
          = (Inl (Error ''Failed to retrieve computation status''),
             pollStart w cid t n + int (snd (getComputationStatus w cid n))))
   \<and> (getAvailableMXE w = (Some m, d1)
      \<and> encryptInputs w (inputs request) (mxe_publicKey m) = (Inr enc, d2)
      \<and> submitComputation w
            \<lparr> sub_mxeId = mxe_id m, sub_functionName = functionName request,
              sub_encryptedInputs = enc, sub_metadata = metadata request \<rparr>
            (now + int d1 + int d2) = (Inr cid, d3)
      \<and> t = now + int d1 + int d2 + int d3
      \<and> (\<forall>i<n. pending w cid i) \<and> pollStart w cid t n - t < maxWaitTime
      \<and> fst (computation w cid n) = HttpErr msg
    \<longrightarrow> performEncryptedComputation w request now
          = (\<lparr> success = False, result = JUndefined, computationId = JUndefined,
               error = Some ''Failed to retrieve computation status'',
               executionTime
                 = Some (pollStart w cid t n + int (snd (getComputationStatus w cid n)) - now),
               gasUsed = None \<rparr>,
             pollStart w cid t n + int (snd (getComputationStatus w cid n))))
   \<and> (toStr w cid = Inr a
    \<longrightarrow> snd (getComputationStatus w cid n) = snd (computation w cid n))"
proof (intro conjI)
  show "(\<forall>i<n. pending w cid i) \<and> pollStart w cid t n - t < maxWaitTime
      \<and> fst (computation w cid n) = HttpErr msg
    \<longrightarrow> waitForComputationCompletion w cid t
          = (Inl (Error ''Failed to retrieve computation status''),
             pollStart w cid t n + int (snd (getComputationStatus w cid n)))"
    using wait_error_at [of n w cid t msg] by simp
  show "getAvailableMXE w = (Some m, d1)
      \<and> encryptInputs w (inputs request) (mxe_publicKey m) = (Inr enc, d2)
      \<and> submitComputation w
            \<lparr> sub_mxeId = mxe_id m, sub_functionName = functionName request,
              sub_encryptedInputs = enc, sub_metadata = metadata request \<rparr>
            (now + int d1 + int d2) = (Inr cid, d3)
      \<and> t = now + int d1 + int d2 + int d3
      \<and> (\<forall>i<n. pending w cid i) \<and> pollStart w cid t n - t < maxWaitTime
      \<and> fst (computation w cid n) = HttpErr msg
    \<longrightarrow> performEncryptedComputation w request now
          = (\<lparr> success = False, result = JUndefined, computationId = JUndefined,
               error = Some ''Failed to retrieve computation status'',
               executionTime
                 = Some (pollStart w cid t n + int (snd (getComputationStatus w cid n)) - now),
               gasUsed = None \<rparr>,
             pollStart w cid t n + int (snd (getComputationStatus w cid n)))"
  proof
    assume a: "getAvailableMXE w = (Some m, d1)
      \<and> encryptInputs w (inputs request) (mxe_publicKey m) = (Inr enc, d2)
      \<and> submitComputation w
            \<lparr> sub_mxeId = mxe_id m, sub_functionName = functionName request,
              sub_encryptedInputs = enc, sub_metadata = metadata request \<rparr>
            (now + int d1 + int d2) = (Inr cid, d3)
      \<and> t = now + int d1 + int d2 + int d3
      \<and> (\<forall>i<n. pending w cid i) \<and> pollStart w cid t n - t < maxWaitTime
      \<and> fst (computation w cid n) = HttpErr msg"
    then have "waitForComputationCompletion w cid (now + int d1 + int d2 + int d3)
          = (Inl (Error ''Failed to retrieve computation status''),
             pollStart w cid t n + int (snd (getComputationStatus w cid n)))"
      using wait_error_at [of n w cid t msg] by (elim conjE) simp
    with a show "performEncryptedComputation w request now
          = (\<lparr> success = False, result = JUndefined, computationId = JUndefined,
               error = Some ''Failed to retrieve computation status'',
               executionTime
                 = Some (pollStart w cid t n + int (snd (getComputationStatus w cid n)) - now),
               gasUsed = None \<rparr>,
             pollStart w cid t n + int (snd (getComputationStatus w cid n)))"
      by (simp add: performEncryptedComputation_def performEncryptedComputation_try_def)
  qed
  show "toStr w cid = Inr a
    \<longrightarrow> snd (getComputationStatus w cid n) = snd (computation w cid n)"
    using lookup_duration [of w cid a n] by (rule impI)
qed

theorem poll_error_ends_loop_witness:
  "pending poll_error_world (JStr ''c-1'') 0
   \<and> fst (computation poll_error_world (JStr ''c-1'') 1) = HttpErr ''Network Error''
   \<and> fst (computation poll_error_world (JStr ''c-1'') 2)
       = HttpOk (JObj [(''status'', JStr ''completed''), (''result'', JArr [JNum 70])])
   \<and> snd (getComputationStatus poll_error_world (JStr ''c-1'') 1) = 50
   \<and> waitForComputationCompletion poll_error_world (JStr ''c-1'') 1220
       = (Inl (Error ''Failed to retrieve computation status''), 6320)
   \<and> performEncryptedComputation poll_error_world sample_request 1000
       = (\<lparr> success = False, result = JUndefined, computationId = JUndefined,
            error = Some ''Failed to retrieve computation status'',
            executionTime = Some 5320, gasUsed = None \<rparr>, 6320)"
proof -
  let ?m = "\<lparr> mxe_id = JStr ''mxe-1'', mxe_publicKey = JStr ''pk-1'',
              mxe_capacity = JNum 8 \<rparr>"
  let ?enc = "\<lparr> ciphertext = ''5f'', nonce = ''00'', publicKey = ''pem'' \<rparr>"
  have pend: "\<forall>i<1. pending poll_error_world (JStr ''c-1'') i"
    by (simp add: pending_def getComputationStatus_def getComputationStatus_try_def
          world_defs)
  have steps: "getAvailableMXE poll_error_world = (Some ?m, 40)"
    "encryptInputs poll_error_world (inputs sample_request) (mxe_publicKey ?m) = (Inr ?enc, 120)"
    "submitComputation poll_error_world
       \<lparr> sub_mxeId = mxe_id ?m, sub_functionName = functionName sample_request,
         sub_encryptedInputs = ?enc, sub_metadata = metadata sample_request \<rparr>
       (1000 + int 40 + int 120) = (Inr (JStr ''c-1''), 60)"
    by (simp_all add: getAvailableMXE_def encryptInputs_def submitComputation_def
          world_defs)
  have ps: "pollStart poll_error_world (JStr ''c-1'') 1220 1 = 6270"
    by (simp add: pollInterval_def world_defs)
  show ?thesis
    using pend steps ps
      poll_error_ends_loop [where w = poll_error_world and cid = "JStr ''c-1''"
        and n = 1 and t = 1220 and msg = "''Network Error''" and m = ?m and ?d1.0 = 40
        and request = sample_request and enc = ?enc and ?d2.0 = 120 and now = 1000
        and ?d3.0 = 60 and a = "''c-1''"]
    by (simp add: maxWaitTime_def world_defs)
qed

text \<open>
  claim C10 (as amended): when the computation succeeded and its result is \<open>undefined\<close>
  or \<open>null\<close>, each of the three wrappers raises the \<open>TypeError\<close> of the first
  indexed read. For every other result, a sequence or not, no wrapper raises: each field
  is what the indexed read of its position yields when that is truthy, and its default
  otherwise; a position the result lacks reads as \<open>undefined\<close> and takes the default.
\<close>

theorem wrappers_raise_on_missing_payload:
  "(fst (performEncryptedComputation w (riskAssessmentRequest w p now) now) = r1
      \<and> success r1
    \<longrightarrow> (nullish (result r1)
           \<longrightarrow> fst (performEncryptedRiskAssessment w p now)
                 = Inl (cannotRead (result r1) ''0''))
        \<and> (\<not> nullish (result r1)
           \<longrightarrow> fst (performEncryptedRiskAssessment w p now)
                 = Inr \<lparr> riskScore = js_or (js_index (result r1) 0) (JNum 50),
                         approved = js_or (js_index (result r1) 1) (JBool False),
                         maxAmount = js_or (js_index (result r1) 2) (JNum 0),
                         confidence = js_or (js_index (result r1) 3) (JNum 0.5) \<rparr>))
   \<and> (fst (performEncryptedComputation w (collateralValidationRequest w c l now) now) = r2
      \<and> success r2
    \<longrightarrow> (nullish (result r2)
           \<longrightarrow> fst (performEncryptedCollateralValidation w c l now)
                 = Inl (cannotRead (result r2) ''0''))
        \<and> (\<not> nullish (result r2)
           \<longrightarrow> fst (performEncryptedCollateralValidation w c l now)
                 = Inr \<lparr> valid = js_or (js_index (result r2) 0) (JBool False),
                         ratio = js_or (js_index (result r2) 1) (JNum 0),
                         requiredRatio = js_or (js_index (result r2) 2) (JNum 1.5) \<rparr>))
   \<and> (fst (performEncryptedComputation w (interestCalculationRequest w a r y now) now) = r3
      \<and> success r3
    \<longrightarrow> (nullish (result r3)
           \<longrightarrow> fst (performEncryptedInterestCalculation w a r y now)
                 = Inl (cannotRead (result r3) ''0''))
        \<and> (\<not> nullish (result r3)
           \<longrightarrow> fst (performEncryptedInterestCalculation w a r y now)
                 = Inr \<lparr> interest = js_or (js_index (result r3) 0) (JNum 0),
                         totalAmount = js_or (js_index (result r3) 1) (JNum 0),
                         monthlyPayment = js_or (js_index (result r3) 2) (JNum 0) \<rparr>))
   \<and> (js_index v i = JUndefined \<longrightarrow> js_or (js_index v i) dflt = dflt)
   \<and> js_index (JNum q) i = JUndefined \<and> js_index (JBool f) i = JUndefined
   \<and> (decimal i \<notin> set (map fst kvs) \<longrightarrow> js_index (JObj kvs) i = JUndefined)
   \<and> (length xs \<le> i \<longrightarrow> js_index (JArr xs) i = JUndefined)
   \<and> (length s \<le> i \<longrightarrow> js_index (JStr s) i = JUndefined)"
proof -
  have risk: "fst (performEncryptedRiskAssessment w p now)
     = (if nullish (result r1) then Inl (cannotRead (result r1) ''0'')
        else Inr \<lparr> riskScore = js_or (js_index (result r1) 0) (JNum 50),
                   approved = js_or (js_index (result r1) 1) (JBool False),
                   maxAmount = js_or (js_index (result r1) 2) (JNum 0),
                   confidence = js_or (js_index (result r1) 3) (JNum 0.5) \<rparr>)"
    if "fst (performEncryptedComputation w (riskAssessmentRequest w p now) now) = r1
        \<and> success r1"
    using that by (cases "performEncryptedComputation w (riskAssessmentRequest w p now) now")
      (simp add: performEncryptedRiskAssessment_def)
  have coll: "fst (performEncryptedCollateralValidation w c l now)
     = (if nullish (result r2) then Inl (cannotRead (result r2) ''0'')
        else Inr \<lparr> valid = js_or (js_index (result r2) 0) (JBool False),
                   ratio = js_or (js_index (result r2) 1) (JNum 0),
                   requiredRatio = js_or (js_index (result r2) 2) (JNum 1.5) \<rparr>)"
    if "fst (performEncryptedComputation w (collateralValidationRequest w c l now) now) = r2
        \<and> success r2"
    using that by (cases "performEncryptedComputation w (collateralValidationRequest w c l now) now")
      (simp add: performEncryptedCollateralValidation_def)
  have intr: "fst (performEncryptedInterestCalculation w a r y now)
     = (if nullish (result r3) then Inl (cannotRead (result r3) ''0'')
        else Inr \<lparr> interest = js_or (js_index (result r3) 0) (JNum 0),
                   totalAmount = js_or (js_index (result r3) 1) (JNum 0),
                   monthlyPayment = js_or (js_index (result r3) 2) (JNum 0) \<rparr>)"
    if "fst (performEncryptedComputation w (interestCalculationRequest w a r y now) now) = r3
        \<and> success r3"
    using that by (cases "performEncryptedComputation w (interestCalculationRequest w a r y now) now")
      (simp add: performEncryptedInterestCalculation_def)
  have dflt: "js_index v i = JUndefined \<longrightarrow> js_or (js_index v i) dflt = dflt"
    by (simp add: js_or_def)
  have prim: "js_index (JNum q) i = JUndefined \<and> js_index (JBool f) i = JUndefined"
    by simp
  have obj: "decimal i \<notin> set (map fst kvs) \<longrightarrow> js_index (JObj kvs) i = JUndefined"
    using js_index_absent [of i kvs] by (rule impI)
  have arr: "length xs \<le> i \<longrightarrow> js_index (JArr xs) i = JUndefined"
    by simp
  have str: "length s \<le> i \<longrightarrow> js_index (JStr s) i = JUndefined"
    by simp
  from risk coll intr dflt prim obj arr str show ?thesis
    by presburger
qed

theorem wrappers_raise_on_missing_payload_witness:
  "fst (performEncryptedComputation no_payload_world
          (riskAssessmentRequest no_payload_world (JStr ''p'') 1000) 1000)
     = \<lparr> success = True, result = JUndefined, computationId = JStr ''c-1'',
         error = None, executionTime = Some 270, gasUsed = Some 0 \<rparr>
   \<and> fst (performEncryptedRiskAssessment no_payload_world (JStr ''p'') 1000)
       = Inl (TypeError (''Cannot read properties of undefined (reading ''
                         @ [CHR 0x27] @ ''0'' @ [CHR 0x27] @ '')''))
   \<and> fst (performEncryptedCollateralValidation no_payload_world 150 100 1000)
       = Inl (cannotRead JUndefined ''0'')
   \<and> fst (performEncryptedInterestCalculation no_payload_world 1000 5 12 1000)
       = Inl (cannotRead JUndefined ''0'')
   \<and> fst (performEncryptedRiskAssessment sample_world (JStr ''p'') 1000)
       = Inr \<lparr> riskScore = JNum 70, approved = JBool False, maxAmount = JNum 0,
               confidence = JNum 0.5 \<rparr>
   \<and> fst (performEncryptedCollateralValidation sample_world 150 100 1000)
       = Inr \<lparr> valid = JNum 70, ratio = JNum 0, requiredRatio = JNum 1.5 \<rparr>
   \<and> fst (performEncryptedInterestCalculation sample_world 1000 5 12 1000)
       = Inr \<lparr> interest = JNum 70, totalAmount = JNum 0, monthlyPayment = JNum 0 \<rparr>
   \<and> js_index (JObj [(''score'', JNum 70)]) 0 = JUndefined
   \<and> js_index (JArr [JNum 70]) 1 = JUndefined"
  using wrappers_raise_on_missing_payload
          [of no_payload_world "JStr ''p''" 1000
              "fst (performEncryptedComputation no_payload_world
                      (riskAssessmentRequest no_payload_world (JStr ''p'') 1000) 1000)"
              150 100
              "fst (performEncryptedComputation no_payload_world
                      (collateralValidationRequest no_payload_world 150 100 1000) 1000)"
              1000 5 12
              "fst (performEncryptedComputation no_payload_world
                      (interestCalculationRequest no_payload_world 1000 5 12 1000) 1000)"
              "JArr [JNum 70]" 1 JNull 0 True "[(''score'', JNum 70)]" "[JNum 70]" "''a''"]
        wrappers_raise_on_missing_payload
          [of sample_world "JStr ''p''" 1000
              "fst (performEncryptedComputation sample_world
                      (riskAssessmentRequest sample_world (JStr ''p'') 1000) 1000)"
              150 100
              "fst (performEncryptedComputation sample_world
                      (collateralValidationRequest sample_world 150 100 1000) 1000)"
              1000 5 12
              "fst (performEncryptedComputation sample_world
                      (interestCalculationRequest sample_world 1000 5 12 1000) 1000)"
              "JObj [(''score'', JNum 70)]" 0 JNull 0 True "[(''score'', JNum 70)]"
              "[JNum 70]" "''a''"]
  by (simp add: no_payload_run sample_run cannotRead_def js_or_def)

text \<open>
  The claim as first stated fails for a result that is no sequence and yet can be
  indexed: for the object \<open>{"score": 70}\<close> the risk assessment raises nothing and
  returns its four defaults.
\<close>

theorem object_payload_counterexample:
  "success (fst (performEncryptedComputation object_payload_world
                   (riskAssessmentRequest object_payload_world (JStr ''p'') 1000) 1000))
   \<and> result (fst (performEncryptedComputation object_payload_world
                   (riskAssessmentRequest object_payload_world (JStr ''p'') 1000) 1000))
       = JObj [(''score'', JNum 70)]
   \<and> fst (performEncryptedRiskAssessment object_payload_world (JStr ''p'') 1000)
       = Inr \<lparr> riskScore = JNum 50, approved = JBool False, maxAmount = JNum 0,
               confidence = JNum 0.5 \<rparr>"
  by (simp add: object_payload_run performEncryptedRiskAssessment_def js_or_def)

end
